theory Spec2Isabelle
  imports Main
begin

section \<open>JavaScript values handled by the login code\<close>

text \<open>
  An expiration is a JavaScript string that the code feeds to \<^verbatim>\<open>new Date(...)\<close>.
  \<open>ISO t\<close> stands for a date string denoting the instant \<open>t\<close> (milliseconds since the
  epoch), which is what \<^verbatim>\<open>new Date(t).toISOString()\<close> writes; \<open>Not_a_date s\<close> is any
  other string \<open>s\<close>, for which \<^verbatim>\<open>getTime()\<close> is NaN (here \<open>None\<close>).
\<close>

datatype date_string = ISO int | Not_a_date string

fun Date_getTime :: "date_string \<Rightarrow> int option" where
  "Date_getTime (ISO t) = Some t"
| "Date_getTime (Not_a_date s) = None"

definition toISOString :: "int \<Rightarrow> date_string" where
  "toISOString t = ISO t"

text \<open>Truthiness: \<^verbatim>\<open>undefined\<close>, the empty string and the number 0 are falsy.\<close>

fun truthy_string :: "string option \<Rightarrow> bool" where
  "truthy_string None = False"
| "truthy_string (Some s) = (s \<noteq> [])"

fun truthy_date :: "date_string option \<Rightarrow> bool" where
  "truthy_date None = False"
| "truthy_date (Some (ISO t)) = True"
| "truthy_date (Some (Not_a_date s)) = (s \<noteq> [])"

fun truthy_number :: "int option \<Rightarrow> bool" where
  "truthy_number None = False"
| "truthy_number (Some n) = (n \<noteq> 0)"

text \<open>The decimal rendering of a number inside a template literal.\<close>

definition digit :: "nat \<Rightarrow> char" where
  "digit d = char_of (d + 48)"

function decimal :: "nat \<Rightarrow> string" where
  "decimal n = (if n div 10 = 0 then [digit n] else decimal (n div 10) @ [digit (n mod 10)])"
  by pat_completeness auto
termination
  by (relation "measure (\<lambda>n. n)") auto

declare decimal.simps [simp del]

section \<open>The login response and the HTTP client\<close>

text \<open>
  \<^verbatim>\<open>interface R6UserResponse\<close>. At run time \<open>expiration\<close> and \<open>sessionId\<close> may be
  missing from the body the service sends, so both are optional here.
\<close>

record R6UserResponse =
  ticket :: string
  profileId :: string
  userId :: string
  nameOnPlatform :: string
  environment :: string
  expiration :: "date_string option"
  sessionId :: "string option"

record http_response =
  status :: nat
  headers :: "(string \<times> string) list"
  data :: R6UserResponse

text \<open>
  The settled promise of \<^verbatim>\<open>axios(httpConfig)\<close>: fulfilled with a response, or rejected
  with an AxiosError whose \<^verbatim>\<open>response\<close> is present (the service answered) or absent
  (no answer reached the client).
\<close>

datatype axios_result = Fulfilled http_response | Rejected "http_response option"

text \<open>
  What the service does with one request: it answers, or no answer arrives. The code
  leaves \<^verbatim>\<open>validateStatus\<close> at the client's default, under which exactly the
  statuses 200 to 299 fulfil the promise.
\<close>

datatype http_exchange = Reply http_response | No_reply

definition validateStatus :: "nat \<Rightarrow> bool" where
  "validateStatus s \<longleftrightarrow> 200 \<le> s \<and> s < 300"

fun axios_default :: "http_exchange \<Rightarrow> axios_result" where
  "axios_default (Reply r) =
     (if validateStatus (status r) then Fulfilled r else Rejected (Some r))"
| "axios_default No_reply = Rejected None"

text \<open>
  Everything the code can throw: \<^verbatim>\<open>new Error(message)\<close>, a bare string, the
  AxiosError of a rejected request, and the rejection of a file write.
\<close>

datatype thrown =
    Error string
  | Thrown_string string
  | AxiosError "http_response option"
  | SystemError string

section \<open>The in-memory manager (src/http/ubi-auth.ts)\<close>

record UbiLoginManager =
  this_token :: "string option"
  this_sessionId :: "string option"
  this_lastLoginTime :: "int option"

definition shouldReauthenticate :: "UbiLoginManager \<Rightarrow> int \<Rightarrow> bool" where
  "shouldReauthenticate this now \<longleftrightarrow>
     \<not> truthy_string (this_token this) \<or>
     \<not> truthy_string (this_sessionId this) \<or>
     \<not> truthy_number (this_lastLoginTime this) \<or>
     (case this_lastLoginTime this of
        None \<Rightarrow> True
      | Some lastLoginTime \<Rightarrow> now - lastLoginTime > 30 * 60 * 1000)"

text \<open>The \<^verbatim>\<open>catch\<close> block of \<^verbatim>\<open>requestLogin\<close>: what is thrown on for what was caught.\<close>

fun requestLogin_catch :: "thrown \<Rightarrow> thrown" where
  "requestLogin_catch (AxiosError (Some response)) =
     (if status response \<noteq> 0 then
        (if status response = 401 then Error ''Unauthorized: Incorrect email or password.''
         else if status response = 409 then Error ''Conflict: Captcha or other challenge required.''
         else if status response = 429 then Error ''Too many requests: Rate limit exceeded.''
         else Error (''Login failed with status '' @ decimal (status response)))
      else AxiosError (Some response))"
| "requestLogin_catch error = error"

text \<open>
  \<open>axios\<close> gives the settled result of the request carrying a given \<^verbatim>\<open>Ubi-AppId\<close>
  header; \<open>sent\<close> is the log of the requests issued so far, one entry per call of
  \<^verbatim>\<open>axios(httpConfig)\<close>.
\<close>

definition requestLogin ::
  "('a \<Rightarrow> axios_result) \<Rightarrow> 'a \<Rightarrow> 'a list \<Rightarrow> (thrown + R6UserResponse option) \<times> 'a list" where
  "requestLogin axios appId sent =
     (case axios appId of
        Fulfilled response \<Rightarrow>
          (let sid = map_of (headers response) ''ubi-sessionid'' in
           if \<not> truthy_string sid
           then (Inl (requestLogin_catch
                   (Error ''Missing Ubi-SessionId header in login response.'')), sent @ [appId])
           else (Inr (Some ((data response)\<lparr>sessionId := sid\<rparr>)), sent @ [appId]))
      | Rejected response \<Rightarrow>
          (Inl (requestLogin_catch (AxiosError response)), sent @ [appId]))"

text \<open>
  \<open>now\<close> is the clock read by \<^verbatim>\<open>shouldReauthenticate\<close>, \<open>now'\<close> the clock read after
  the login has answered. The result pairs \<^verbatim>\<open>this.token\<close> with \<^verbatim>\<open>this.sessionId\<close>.
\<close>

definition getToken ::
  "('a \<Rightarrow> axios_result) \<Rightarrow> int \<Rightarrow> int \<Rightarrow> 'a \<Rightarrow> UbiLoginManager \<Rightarrow> 'a list \<Rightarrow>
   (thrown + string option \<times> string option) \<times> UbiLoginManager \<times> 'a list" where
  "getToken axios now now' appId this sent =
     (if shouldReauthenticate this now then
        (case requestLogin axios appId sent of
           (Inl error, sent') \<Rightarrow> (Inl error, this, sent')
         | (Inr None, sent') \<Rightarrow>
             (Inl (Error ''Login failed. Cannot retrieve token.''), this, sent')
         | (Inr (Some result), sent') \<Rightarrow>
             (let this' = this\<lparr>this_token := Some (ticket result),
                                this_sessionId := sessionId result,
                                this_lastLoginTime := Some now'\<rparr>
              in (Inr (this_token this', this_sessionId this'), this', sent')))
      else (Inr (this_token this, this_sessionId this), this, sent))"

section \<open>The file-backed managers (unnamed/part_000 and the two revisions in unnamed/part_001)\<close>

text \<open>
  Modelled from the spec: the enum \<^verbatim>\<open>UbiAppId\<close> is declared in
  utilities/interfaces/enums, which is not among the sources. The specification gives the
  account variant two known values, and the code uses the members \<^verbatim>\<open>v2\<close> and \<^verbatim>\<open>v3\<close>.
  \<open>version\<close> is the literal type \<^verbatim>\<open>'v2' | 'v3'\<close> of the token files.
\<close>

datatype UbiAppId = UbiAppId_v2 | UbiAppId_v3

datatype version = V2 | V3

definition TOKEN_PATH_V2 :: string where
  "TOKEN_PATH_V2 = ''private/auth_token_v2.json''"

definition TOKEN_PATH_V3 :: string where
  "TOKEN_PATH_V3 = ''private/auth_token_v3.json''"

text \<open>
  The text of a file is either the JSON text of a token object, which is what
  \<^verbatim>\<open>JSON.stringify\<close> writes and what \<^verbatim>\<open>JSON.parse\<close> reads back, or text from which
  \<^verbatim>\<open>JSON.parse\<close> yields no token object.
\<close>

datatype file_text = JSON_text R6UserResponse | Malformed

fun JSON_parse :: "file_text \<Rightarrow> R6UserResponse option" where
  "JSON_parse (JSON_text token) = Some token"
| "JSON_parse Malformed = None"

definition JSON_stringify :: "R6UserResponse \<Rightarrow> file_text" where
  "JSON_stringify token = JSON_text token"

text \<open>
  The world around \<^verbatim>\<open>Login\<close>: the files by path (\<open>None\<close> where \<^verbatim>\<open>fs.readFile\<close>
  rejects), the paths on which \<^verbatim>\<open>fs.writeFile\<close> rejects, the log of login requests
  issued, and what \<^verbatim>\<open>console.error\<close> has printed.
\<close>

record world =
  files :: "string \<Rightarrow> file_text option"
  write_fails :: "string \<Rightarrow> bool"
  requests :: "UbiAppId list"
  console :: "thrown list"

definition writeFile :: "string \<Rightarrow> file_text \<Rightarrow> world \<Rightarrow> (thrown + unit) \<times> world" where
  "writeFile filePath text w =
     (if write_fails w filePath then (Inl (SystemError filePath), w)
      else (Inr (), w\<lparr>files := (files w)(filePath := Some text)\<rparr>))"

definition loadToken :: "(string \<Rightarrow> file_text option) \<Rightarrow> int \<Rightarrow> version \<Rightarrow> R6UserResponse option" where
  "loadToken fs now version =
     (let filePath = (if version = V2 then TOKEN_PATH_V2 else TOKEN_PATH_V3) in
      case fs filePath of
        None \<Rightarrow> None
      | Some raw \<Rightarrow>
          (case JSON_parse raw of
             None \<Rightarrow> None
           | Some token \<Rightarrow>
               (if truthy_date (expiration token) \<and>
                   (case expiration token of
                      None \<Rightarrow> False
                    | Some d \<Rightarrow>
                        (case Date_getTime d of
                           None \<Rightarrow> False
                         | Some ms \<Rightarrow> ms > now + 5 * 60 * 1000))
                then Some token else None)))"

definition saveToken :: "version \<Rightarrow> R6UserResponse \<Rightarrow> world \<Rightarrow> (thrown + unit) \<times> world" where
  "saveToken version token w =
     (let filePath = (if version = V2 then TOKEN_PATH_V2 else TOKEN_PATH_V3) in
      writeFile filePath (JSON_stringify token) w)"

subsection \<open>\<^verbatim>\<open>RequestLogin\<close>, revision without a cache (part_000)\<close>

fun RequestLogin_uncached_catch :: "thrown \<Rightarrow> thrown" where
  "RequestLogin_uncached_catch (AxiosError (Some response)) =
     (if status response \<noteq> 0 then
        (if status response = 401 then Thrown_string ''Account does not exist.''
         else if status response = 409 then Thrown_string ''Captcha needed.''
         else if status response = 429 then Thrown_string ''Too many requests.''
         else AxiosError (Some response))
      else AxiosError (Some response))"
| "RequestLogin_uncached_catch error = error"

definition RequestLogin_uncached ::
  "('a \<Rightarrow> axios_result) \<Rightarrow> 'a \<Rightarrow> 'a list \<Rightarrow> (thrown + R6UserResponse option) \<times> 'a list" where
  "RequestLogin_uncached axios appId sent =
     (case axios appId of
        Fulfilled response \<Rightarrow>
          (let sid = map_of (headers response) ''ubi-sessionid'' in
           if \<not> truthy_string sid
           then (Inl (RequestLogin_uncached_catch
                   (Error ''Missing Ubi-SessionId header in login response.'')), sent @ [appId])
           else (Inr (Some ((data response)\<lparr>sessionId := sid\<rparr>)), sent @ [appId]))
      | Rejected response \<Rightarrow>
          (Inl (RequestLogin_uncached_catch (AxiosError response)), sent @ [appId]))"

subsection \<open>\<^verbatim>\<open>RequestLogin\<close>, revision that defaults the expiration (part_001, first)\<close>

fun RequestLogin_defaulting_catch :: "thrown \<Rightarrow> thrown" where
  "RequestLogin_defaulting_catch (AxiosError (Some response)) =
     (if status response \<noteq> 0 then
        (if status response = 401 then Thrown_string ''Account does not exist.''
         else if status response = 409 then Thrown_string ''Captcha needed.''
         else if status response = 429 then Thrown_string ''Too many requests. Rate limit hit.''
         else AxiosError (Some response))
      else AxiosError (Some response))"
| "RequestLogin_defaulting_catch error = error"

text \<open>\<open>now\<close> is the clock read when the expiration is computed.\<close>

definition RequestLogin_defaulting ::
  "('a \<Rightarrow> axios_result) \<Rightarrow> int \<Rightarrow> 'a \<Rightarrow> 'a list \<Rightarrow> (thrown + R6UserResponse option) \<times> 'a list" where
  "RequestLogin_defaulting axios now appId sent =
     (case axios appId of
        Fulfilled response \<Rightarrow>
          (let sid = map_of (headers response) ''ubi-sessionid'' in
           if \<not> truthy_string sid
           then (Inl (RequestLogin_defaulting_catch
                   (Error ''Missing Ubi-SessionId header in login response.'')), sent @ [appId])
           else
             (let exp = (if truthy_date (expiration (data response))
                         then expiration (data response)
                         else Some (toISOString (now + 30 * 60 * 1000)))
              in (Inr (Some ((data response)\<lparr>sessionId := sid, expiration := exp\<rparr>)),
                  sent @ [appId])))
      | Rejected response \<Rightarrow>
          (Inl (RequestLogin_defaulting_catch (AxiosError response)), sent @ [appId]))"

subsection \<open>\<^verbatim>\<open>RequestLogin\<close>, cached revision that keeps the response's expiration (part_001, second)\<close>

fun RequestLogin_cached_catch :: "thrown \<Rightarrow> thrown" where
  "RequestLogin_cached_catch (AxiosError (Some response)) =
     (if status response \<noteq> 0 then
        (if status response = 401 then Thrown_string ''Account does not exist.''
         else if status response = 409 then Thrown_string ''Captcha needed.''
         else if status response = 429 then
           Thrown_string ([CHR 0xE2, CHR 0x80, CHR 0x9A, CHR 0xC3, CHR 0xB9, CHR 0xC3, CHR 0xA5]
                          @ '' Too many requests. Rate limit hit.'')
         else AxiosError (Some response))
      else AxiosError (Some response))"
| "RequestLogin_cached_catch error = error"

definition RequestLogin_cached ::
  "('a \<Rightarrow> axios_result) \<Rightarrow> 'a \<Rightarrow> 'a list \<Rightarrow> (thrown + R6UserResponse option) \<times> 'a list" where
  "RequestLogin_cached axios appId sent =
     (case axios appId of
        Fulfilled response \<Rightarrow>
          (let sid = map_of (headers response) ''ubi-sessionid'' in
           if \<not> truthy_string sid
           then (Inl (RequestLogin_cached_catch
                   (Error ''Missing Ubi-SessionId header in login response.'')), sent @ [appId])
           else (Inr (Some ((data response)\<lparr>sessionId := sid\<rparr>)), sent @ [appId]))
      | Rejected response \<Rightarrow>
          (Inl (RequestLogin_cached_catch (AxiosError response)), sent @ [appId]))"

subsection \<open>\<^verbatim>\<open>Login\<close>\<close>

text \<open>
  One of the two blocks inside the \<^verbatim>\<open>try\<close> of the caching \<^verbatim>\<open>Login\<close>: load the
  token of a version; when there is none, request a login and save what it returns.
  \<open>request\<close> is the \<^verbatim>\<open>this.RequestLogin\<close> of the revision, \<open>now\<close> the clock read by
  \<^verbatim>\<open>loadToken\<close>. \<open>Inl\<close> is a throw that leaves the \<^verbatim>\<open>try\<close>.
\<close>

definition Login_block ::
  "(UbiAppId \<Rightarrow> UbiAppId list \<Rightarrow> (thrown + R6UserResponse option) \<times> UbiAppId list) \<Rightarrow>
   int \<Rightarrow> version \<Rightarrow> UbiAppId \<Rightarrow> world \<Rightarrow> (thrown + unit) \<times> world" where
  "Login_block request now version appId w =
     (case loadToken (files w) now version of
        Some token \<Rightarrow> (Inr (), w)
      | None \<Rightarrow>
          (case request appId (requests w) of
             (Inl error, sent') \<Rightarrow> (Inl error, w\<lparr>requests := sent'\<rparr>)
           | (Inr None, sent') \<Rightarrow> (Inr (), w\<lparr>requests := sent'\<rparr>)
           | (Inr (Some token), sent') \<Rightarrow> saveToken version token (w\<lparr>requests := sent'\<rparr>)))"

text \<open>The \<^verbatim>\<open>catch\<close> of \<^verbatim>\<open>Login\<close>: print the error and return normally.\<close>

fun Login_catch :: "(thrown + unit) \<times> world \<Rightarrow> (thrown + unit) \<times> world" where
  "Login_catch (Inl error, w) = (Inr (), w\<lparr>console := console w @ [error]\<rparr>)"
| "Login_catch (Inr u, w) = (Inr u, w)"

text \<open>The clock readings of one \<^verbatim>\<open>Login\<close>, in the order the code makes them.\<close>

record Login_clock =
  load_v2 :: int
  login_v2 :: int
  load_v3 :: int
  login_v3 :: int

definition Login_defaulting ::
  "(UbiAppId \<Rightarrow> axios_result) \<Rightarrow> Login_clock \<Rightarrow> world \<Rightarrow> (thrown + unit) \<times> world" where
  "Login_defaulting axios clock w =
     Login_catch
       (case Login_block (RequestLogin_defaulting axios (login_v2 clock))
               (load_v2 clock) V2 UbiAppId_v2 w of
          (Inl error, w') \<Rightarrow> (Inl error, w')
        | (Inr u, w') \<Rightarrow>
            Login_block (RequestLogin_defaulting axios (login_v3 clock))
              (load_v3 clock) V3 UbiAppId_v3 w')"

definition Login_cached ::
  "(UbiAppId \<Rightarrow> axios_result) \<Rightarrow> Login_clock \<Rightarrow> world \<Rightarrow> (thrown + unit) \<times> world" where
  "Login_cached axios clock w =
     Login_catch
       (case Login_block (RequestLogin_cached axios) (load_v2 clock) V2 UbiAppId_v2 w of
          (Inl error, w') \<Rightarrow> (Inl error, w')
        | (Inr u, w') \<Rightarrow>
            Login_block (RequestLogin_cached axios) (load_v3 clock) V3 UbiAppId_v3 w')"

text \<open>
  The revision without a cache logs in for both versions on every call and hands each
  result to \<^verbatim>\<open>SaveJSONToFile\<close>, a helper of the repository (utilities/file-stream) taken
  here as a parameter.
\<close>

definition Login_uncached_block ::
  "(string \<Rightarrow> R6UserResponse \<Rightarrow> world \<Rightarrow> (thrown + unit) \<times> world) \<Rightarrow>
   (UbiAppId \<Rightarrow> axios_result) \<Rightarrow> string \<Rightarrow> UbiAppId \<Rightarrow> world \<Rightarrow> (thrown + unit) \<times> world" where
  "Login_uncached_block SaveJSONToFile axios filePath appId w =
     (case RequestLogin_uncached axios appId (requests w) of
        (Inl error, sent') \<Rightarrow> (Inl error, w\<lparr>requests := sent'\<rparr>)
      | (Inr None, sent') \<Rightarrow> (Inr (), w\<lparr>requests := sent'\<rparr>)
      | (Inr (Some token), sent') \<Rightarrow> SaveJSONToFile filePath token (w\<lparr>requests := sent'\<rparr>))"

definition Login_uncached ::
  "(string \<Rightarrow> R6UserResponse \<Rightarrow> world \<Rightarrow> (thrown + unit) \<times> world) \<Rightarrow>
   (UbiAppId \<Rightarrow> axios_result) \<Rightarrow> world \<Rightarrow> (thrown + unit) \<times> world" where
  "Login_uncached SaveJSONToFile axios w =
     Login_catch
       (case Login_uncached_block SaveJSONToFile axios ''private/auth_token_v2.json''
               UbiAppId_v2 w of
          (Inl error, w') \<Rightarrow> (Inl error, w')
        | (Inr u, w') \<Rightarrow>
            Login_uncached_block SaveJSONToFile axios ''private/auth_token_v3.json''
              UbiAppId_v3 w')"

section \<open>Failure of a login attempt, and sample data\<close>

text \<open>
  A login attempt fails when the request is rejected, or when the fulfilled response has
  no (or an empty) \<^verbatim>\<open>ubi-sessionid\<close> header.
\<close>

definition login_fails :: "axios_result \<Rightarrow> bool" where
  "login_fails res \<longleftrightarrow>
     (case res of
        Fulfilled response \<Rightarrow> \<not> truthy_string (map_of (headers response) ''ubi-sessionid'')
      | Rejected response \<Rightarrow> True)"

text \<open>A response body and replies built from it, used to run the code on concrete inputs.\<close>

definition example_data :: R6UserResponse where
  "example_data = \<lparr>ticket = ''ticket-1'', profileId = ''p'', userId = ''u'',
     nameOnPlatform = ''name'', environment = ''Prod'', expiration = None, sessionId = None\<rparr>"

definition example_reply :: "nat \<Rightarrow> (string \<times> string) list \<Rightarrow> http_response" where
  "example_reply s hs = \<lparr>status = s, headers = hs, data = example_data\<rparr>"

text \<open>A service that answers every application identifier with the same exchange.\<close>

definition answering :: "http_exchange \<Rightarrow> 'a \<Rightarrow> axios_result" where
  "answering exchange appId = axios_default exchange"

text \<open>The path both \<^verbatim>\<open>loadToken\<close> and \<^verbatim>\<open>saveToken\<close> compute from the version.\<close>

definition token_path :: "version \<Rightarrow> string" where
  "token_path version = (if version = V2 then TOKEN_PATH_V2 else TOKEN_PATH_V3)"

text \<open>
  A reply that logs in, a world with no files in which every write succeeds, and a
  clock that stands still during one \<^verbatim>\<open>Login\<close>.
\<close>

definition ok_reply :: http_response where
  "ok_reply = example_reply 200 [(''ubi-sessionid'', ''session-1'')]"

definition empty_world :: world where
  "empty_world = \<lparr>files = (\<lambda>filePath. None), write_fails = (\<lambda>filePath. False),
     requests = [], console = []\<rparr>"

definition clock_at :: "int \<Rightarrow> Login_clock" where
  "clock_at t = \<lparr>load_v2 = t, login_v2 = t, load_v3 = t, login_v3 = t\<rparr>"

text \<open>
  The validity rule in the words of the specification, for a credential that is present:
  its expiration in milliseconds if it has one, the time it was obtained, and the
  current time.
\<close>

definition spec_valid :: "int option \<Rightarrow> int \<Rightarrow> int \<Rightarrow> bool" where
  "spec_valid exp obtained now \<longleftrightarrow>
     (case exp of
        None \<Rightarrow> now - obtained \<le> 30 * 60 * 1000
      | Some e \<Rightarrow> now + 5 * 60 * 1000 < e)"

text \<open>Tokens whose expiration lies before and after the times used below.\<close>

definition expired_token :: R6UserResponse where
  "expired_token = example_data\<lparr>expiration := Some (ISO 999000), sessionId := Some ''session-0''\<rparr>"

definition fresh_token :: R6UserResponse where
  "fresh_token = example_data\<lparr>expiration := Some (ISO 5000000), sessionId := Some ''session-0''\<rparr>"

text \<open>
  A manager as constructed, a manager holding a credential obtained at time 1000, and a
  service whose ticket and session identifier name the application identifier that
  asked for them.
\<close>

definition new_manager :: UbiLoginManager where
  "new_manager = \<lparr>this_token = None, this_sessionId = None, this_lastLoginTime = None\<rparr>"

definition cached_manager :: UbiLoginManager where
  "cached_manager = \<lparr>this_token = Some ''ticket-0'', this_sessionId = Some ''session-0'',
     this_lastLoginTime = Some 1000\<rparr>"

definition example_service :: "string \<Rightarrow> axios_result" where
  "example_service appId =
     Fulfilled \<lparr>status = 200, headers = [(''ubi-sessionid'', ''session-of-'' @ appId)],
                data = example_data\<lparr>ticket := ''ticket-of-'' @ appId\<rparr>\<rparr>"

text \<open>
  A reply whose body carries an expiration that is already past, worlds with one or both
  token files in place, and a \<^verbatim>\<open>SaveJSONToFile\<close> that writes the JSON text.
\<close>

definition stale_reply :: http_response where
  "stale_reply = \<lparr>status = 200, headers = [(''ubi-sessionid'', ''session-1'')],
     data = example_data\<lparr>expiration := Some (ISO 999000)\<rparr>\<rparr>"

definition world_with :: "string \<Rightarrow> R6UserResponse \<Rightarrow> world" where
  "world_with filePath token =
     empty_world\<lparr>files := (files empty_world)(filePath := Some (JSON_text token))\<rparr>"

definition fresh_world :: world where
  "fresh_world =
     empty_world\<lparr>files := (files empty_world)
       (TOKEN_PATH_V2 := Some (JSON_text fresh_token), TOKEN_PATH_V3 := Some (JSON_text fresh_token))\<rparr>"

definition write_through :: "string \<Rightarrow> R6UserResponse \<Rightarrow> world \<Rightarrow> (thrown + unit) \<times> world" where
  "write_through filePath token w = writeFile filePath (JSON_stringify token) w"

text \<open>A service that logs v2 in and answers v3 with a 409.\<close>

fun v3_refusing_service :: "UbiAppId \<Rightarrow> axios_result" where
  "v3_refusing_service UbiAppId_v2 = axios_default (Reply ok_reply)"
| "v3_refusing_service UbiAppId_v3 = axios_default (Reply (example_reply 409 []))"

section \<open>Basic facts about the login request\<close>

lemma requestLogin_sent: "snd (requestLogin axios appId sent) = sent @ [appId]"
  by (simp add: requestLogin_def Let_def split: axios_result.splits)

lemma RequestLogin_uncached_sent: "snd (RequestLogin_uncached axios appId sent) = sent @ [appId]"
  by (simp add: RequestLogin_uncached_def Let_def split: axios_result.splits)

lemma RequestLogin_defaulting_sent: "snd (RequestLogin_defaulting axios now appId sent) = sent @ [appId]"
  by (simp add: RequestLogin_defaulting_def Let_def split: axios_result.splits)

lemma RequestLogin_cached_sent: "snd (RequestLogin_cached axios appId sent) = sent @ [appId]"
  by (simp add: RequestLogin_cached_def Let_def split: axios_result.splits)

lemma requestLogin_rejected:
  "axios appId = Rejected response \<Longrightarrow>
   requestLogin axios appId sent = (Inl (requestLogin_catch (AxiosError response)), sent @ [appId])"
  by (simp add: requestLogin_def)

lemma RequestLogin_uncached_rejected:
  "axios appId = Rejected response \<Longrightarrow>
   RequestLogin_uncached axios appId sent =
     (Inl (RequestLogin_uncached_catch (AxiosError response)), sent @ [appId])"
  by (simp add: RequestLogin_uncached_def)

lemma RequestLogin_defaulting_rejected:
  "axios appId = Rejected response \<Longrightarrow>
   RequestLogin_defaulting axios now appId sent =
     (Inl (RequestLogin_defaulting_catch (AxiosError response)), sent @ [appId])"
  by (simp add: RequestLogin_defaulting_def)

lemma RequestLogin_cached_rejected:
  "axios appId = Rejected response \<Longrightarrow>
   RequestLogin_cached axios appId sent =
     (Inl (RequestLogin_cached_catch (AxiosError response)), sent @ [appId])"
  by (simp add: RequestLogin_cached_def)

lemma axios_default_non2xx:
  "\<not> validateStatus (status r) \<Longrightarrow> axios_default (Reply r) = Rejected (Some r)"
  by simp

lemma token_path_distinct: "TOKEN_PATH_V2 \<noteq> TOKEN_PATH_V3"
  by (simp add: TOKEN_PATH_V2_def TOKEN_PATH_V3_def)

lemma requestLogin_fails_iff:
  "(\<exists>e. fst (requestLogin axios appId sent) = Inl e) \<longleftrightarrow> login_fails (axios appId)"
  by (simp add: requestLogin_def login_fails_def Let_def split: axios_result.splits)

lemma RequestLogin_uncached_fails_iff:
  "(\<exists>e. fst (RequestLogin_uncached axios appId sent) = Inl e) \<longleftrightarrow> login_fails (axios appId)"
  by (simp add: RequestLogin_uncached_def login_fails_def Let_def split: axios_result.splits)

lemma RequestLogin_defaulting_fails_iff:
  "(\<exists>e. fst (RequestLogin_defaulting axios now appId sent) = Inl e) \<longleftrightarrow> login_fails (axios appId)"
  by (simp add: RequestLogin_defaulting_def login_fails_def Let_def split: axios_result.splits)

lemma RequestLogin_cached_fails_iff:
  "(\<exists>e. fst (RequestLogin_cached axios appId sent) = Inl e) \<longleftrightarrow> login_fails (axios appId)"
  by (simp add: RequestLogin_cached_def login_fails_def Let_def split: axios_result.splits)

lemma requestLogin_fulfilled_no_header:
  "axios appId = Fulfilled r \<Longrightarrow> \<not> truthy_string (map_of (headers r) ''ubi-sessionid'') \<Longrightarrow>
   fst (requestLogin axios appId sent) = Inl (Error ''Missing Ubi-SessionId header in login response.'')
   \<and> fst (RequestLogin_uncached axios appId sent) = Inl (Error ''Missing Ubi-SessionId header in login response.'')
   \<and> fst (RequestLogin_defaulting axios now appId sent) = Inl (Error ''Missing Ubi-SessionId header in login response.'')
   \<and> fst (RequestLogin_cached axios appId sent) = Inl (Error ''Missing Ubi-SessionId header in login response.'')"
  by (simp add: requestLogin_def RequestLogin_uncached_def RequestLogin_defaulting_def
      RequestLogin_cached_def Let_def)

lemma catch_not_missing_header:
  "requestLogin_catch (AxiosError x) \<noteq> Error ''Missing Ubi-SessionId header in login response.''"
  "RequestLogin_uncached_catch (AxiosError x) \<noteq> Error ''Missing Ubi-SessionId header in login response.''"
  "RequestLogin_defaulting_catch (AxiosError x) \<noteq> Error ''Missing Ubi-SessionId header in login response.''"
  "RequestLogin_cached_catch (AxiosError x) \<noteq> Error ''Missing Ubi-SessionId header in login response.''"
  by (cases x; simp)+

section \<open>Facts about the token files and \<^verbatim>\<open>Login\<close>\<close>

lemma saveToken_eq:
  "saveToken version token w =
     (if write_fails w (token_path version) then (Inl (SystemError (token_path version)), w)
      else (Inr (), w\<lparr>files := (files w)(token_path version := Some (JSON_text token))\<rparr>))"
  by (simp add: saveToken_def writeFile_def token_path_def JSON_stringify_def Let_def)

lemma loadToken_eq:
  "loadToken fs now version =
     (case fs (token_path version) of
        Some (JSON_text token) \<Rightarrow>
          (case expiration token of
             Some (ISO e) \<Rightarrow> if now + 5 * 60 * 1000 < e then Some token else None
           | _ \<Rightarrow> None)
      | _ \<Rightarrow> None)"
  by (simp add: loadToken_def token_path_def Let_def
      split: option.splits file_text.splits date_string.splits)

lemma Login_block_valid:
  "loadToken (files w) now version = Some token \<Longrightarrow>
   Login_block request now version appId w = (Inr (), w)"
  by (simp add: Login_block_def)

lemma Login_block_failed:
  "loadToken (files w) now version = None \<Longrightarrow> request appId (requests w) = (Inl e, sent') \<Longrightarrow>
   Login_block request now version appId w = (Inl e, w\<lparr>requests := sent'\<rparr>)"
  by (simp add: Login_block_def)

lemma Login_block_saved:
  "loadToken (files w) now version = None \<Longrightarrow>
   request appId (requests w) = (Inr (Some token), sent') \<Longrightarrow>
   Login_block request now version appId w = saveToken version token (w\<lparr>requests := sent'\<rparr>)"
  by (simp add: Login_block_def)

lemma Login_block_none:
  "loadToken (files w) now version = None \<Longrightarrow> request appId (requests w) = (Inr None, sent') \<Longrightarrow>
   Login_block request now version appId w = (Inr (), w\<lparr>requests := sent'\<rparr>)"
  by (simp add: Login_block_def)

lemma Login_block_cases:
  obtains
    (valid) token where "loadToken (files w) now version = Some token"
      "Login_block request now version appId w = (Inr (), w)"
  | (failed) e s where "loadToken (files w) now version = None"
      "request appId (requests w) = (Inl e, s)"
      "Login_block request now version appId w = (Inl e, w\<lparr>requests := s\<rparr>)"
  | (no_token) s where "loadToken (files w) now version = None"
      "request appId (requests w) = (Inr None, s)"
      "Login_block request now version appId w = (Inr (), w\<lparr>requests := s\<rparr>)"
  | (unwritable) token s where "loadToken (files w) now version = None"
      "request appId (requests w) = (Inr (Some token), s)"
      "write_fails w (token_path version)"
      "Login_block request now version appId w =
         (Inl (SystemError (token_path version)), w\<lparr>requests := s\<rparr>)"
  | (saved) token s where "loadToken (files w) now version = None"
      "request appId (requests w) = (Inr (Some token), s)"
      "\<not> write_fails w (token_path version)"
      "Login_block request now version appId w =
         (Inr (), w\<lparr>requests := s,
                       files := (files w)(token_path version := Some (JSON_text token))\<rparr>)"
proof (cases "loadToken (files w) now version")
  case (Some token)
  show ?thesis by (rule valid [OF Some Login_block_valid [OF Some]])
next
  case None
  note load = this
  obtain r s where rs: "request appId (requests w) = (r, s)"
    by (cases "request appId (requests w)")
  show ?thesis
  proof (cases r)
    case (Inl e)
    with rs have req: "request appId (requests w) = (Inl e, s)" by simp
    show ?thesis by (rule failed [OF load req Login_block_failed [where request = request and appId = appId, OF load req]])
  next
    case (Inr t)
    show ?thesis
    proof (cases t)
      case None
      with rs Inr have req: "request appId (requests w) = (Inr None, s)" by simp
      show ?thesis by (rule no_token [OF load req Login_block_none [where request = request and appId = appId, OF load req]])
    next
      case (Some token)
      with rs Inr have req: "request appId (requests w) = (Inr (Some token), s)" by simp
      have b: "Login_block request now version appId w =
          saveToken version token (w\<lparr>requests := s\<rparr>)"
        by (rule Login_block_saved [where request = request and appId = appId, OF load req])
      show ?thesis
      proof (cases "write_fails w (token_path version)")
        case True
        show ?thesis
          by (rule unwritable [OF load req True]) (simp add: b saveToken_eq True)
      next
        case False
        show ?thesis
          by (rule saved [OF load req False]) (simp add: b saveToken_eq False)
      qed
    qed
  qed
qed

lemma Login_block_files:
  "files (snd (Login_block request now version appId w)) = files w \<or>
   (\<exists>token. fst (request appId (requests w)) = Inr (Some token) \<and>
      loadToken (files w) now version = None \<and>
      fst (Login_block request now version appId w) = Inr () \<and>
      files (snd (Login_block request now version appId w)) =
        (files w)(token_path version := Some (JSON_text token)))"
  by (cases rule: Login_block_cases [of w now version request appId]) simp_all

lemma Login_block_other_file:
  "p \<noteq> token_path version \<Longrightarrow>
   files (snd (Login_block request now version appId w)) p = files w p"
  by (cases rule: Login_block_cases [of w now version request appId]) simp_all

lemma Login_block_requests:
  assumes "\<And>sent. snd (request appId sent) = sent @ [appId]"
  shows "requests (snd (Login_block request now version appId w)) =
           requests w @ (if loadToken (files w) now version = None then [appId] else [])"
  using assms [of "requests w"]
  by (cases rule: Login_block_cases [of w now version request appId]) simp_all

lemma Login_block_console:
  "console (snd (Login_block request now version appId w)) = console w"
  by (cases rule: Login_block_cases [of w now version request appId]) simp_all

lemma Login_catch_files: "files (snd (Login_catch x)) = files (snd x)"
  by (cases x rule: Login_catch.cases) simp_all

lemma Login_catch_requests: "requests (snd (Login_catch x)) = requests (snd x)"
  by (cases x rule: Login_catch.cases) simp_all

lemma Login_catch_returns: "fst (Login_catch x) = Inr ()"
  by (cases x rule: Login_catch.cases) simp_all

lemma Login_defaulting_thrown:
  "Login_block (RequestLogin_defaulting axios (login_v2 clock)) (load_v2 clock) V2 UbiAppId_v2 w
     = (Inl e, w2) \<Longrightarrow>
   Login_defaulting axios clock w = (Inr (), w2\<lparr>console := console w2 @ [e]\<rparr>)"
  by (simp add: Login_defaulting_def)

lemma Login_defaulting_continued:
  "Login_block (RequestLogin_defaulting axios (login_v2 clock)) (load_v2 clock) V2 UbiAppId_v2 w
     = (Inr u, w2) \<Longrightarrow>
   Login_defaulting axios clock w =
     Login_catch (Login_block (RequestLogin_defaulting axios (login_v3 clock))
                    (load_v3 clock) V3 UbiAppId_v3 w2)"
  by (simp add: Login_defaulting_def)

lemma Login_cached_thrown:
  "Login_block (RequestLogin_cached axios) (load_v2 clock) V2 UbiAppId_v2 w = (Inl e, w2) \<Longrightarrow>
   Login_cached axios clock w = (Inr (), w2\<lparr>console := console w2 @ [e]\<rparr>)"
  by (simp add: Login_cached_def)

lemma Login_cached_continued:
  "Login_block (RequestLogin_cached axios) (load_v2 clock) V2 UbiAppId_v2 w = (Inr u, w2) \<Longrightarrow>
   Login_cached axios clock w =
     Login_catch (Login_block (RequestLogin_cached axios) (load_v3 clock) V3 UbiAppId_v3 w2)"
  by (simp add: Login_cached_def)

lemma defaulting_result_truthy:
  "fst (RequestLogin_defaulting axios now appId sent) = Inr (Some token) \<Longrightarrow>
   truthy_date (expiration token)"
  by (auto simp add: RequestLogin_defaulting_def Let_def toISOString_def
      split: axios_result.splits if_splits)

lemma Login_block_defaulting_changed:
  assumes ch: "files (snd (Login_block (RequestLogin_defaulting axios t) now version appId w)) p \<noteq> files w p"
  shows "\<exists>token. files (snd (Login_block (RequestLogin_defaulting axios t) now version appId w)) p =
           Some (JSON_text token) \<and> truthy_date (expiration token)"
proof -
  from Login_block_files [of "RequestLogin_defaulting axios t" now version appId w] ch
  obtain token where tok: "fst (RequestLogin_defaulting axios t appId (requests w)) = Inr (Some token)"
    and f: "files (snd (Login_block (RequestLogin_defaulting axios t) now version appId w)) =
        (files w)(token_path version := Some (JSON_text token))"
    by metis
  from ch f have "p = token_path version" by (simp split: if_splits)
  with f have "files (snd (Login_block (RequestLogin_defaulting axios t) now version appId w)) p =
      Some (JSON_text token)" by simp
  with defaulting_result_truthy [OF tok] show ?thesis by blast
qed

lemma Login_defaulting_changed:
  assumes ch: "files (snd (Login_defaulting axios clock w)) p \<noteq> files w p"
  shows "\<exists>token. files (snd (Login_defaulting axios clock w)) p = Some (JSON_text token)
           \<and> truthy_date (expiration token)"
proof -
  let ?b2 = "Login_block (RequestLogin_defaulting axios (login_v2 clock)) (load_v2 clock) V2 UbiAppId_v2 w"
  obtain r2 w2 where b2: "?b2 = (r2, w2)" by (cases ?b2)
  let ?b3 = "Login_block (RequestLogin_defaulting axios (login_v3 clock)) (load_v3 clock) V3 UbiAppId_v3 w2"
  have c2: "files w2 p \<noteq> files w p \<Longrightarrow>
      \<exists>token. files w2 p = Some (JSON_text token) \<and> truthy_date (expiration token)"
    using Login_block_defaulting_changed [of axios "login_v2 clock" "load_v2 clock" V2 UbiAppId_v2 w p] b2
    by simp
  show ?thesis
  proof (cases r2)
    case (Inl e)
    with b2 have "files (snd (Login_defaulting axios clock w)) = files w2"
      by (simp add: Login_defaulting_thrown)
    with ch c2 show ?thesis by simp
  next
    case (Inr u)
    with b2 have f: "files (snd (Login_defaulting axios clock w)) = files (snd ?b3)"
      by (simp add: Login_defaulting_continued Login_catch_files)
    show ?thesis
    proof (cases "files (snd ?b3) p = files w2 p")
      case True
      with f ch c2 show ?thesis by simp
    next
      case False
      from Login_block_defaulting_changed [OF False] f show ?thesis by simp
    qed
  qed
qed

section \<open>Facts about the manager in memory\<close>

lemma shouldReauthenticate_iff:
  "\<not> shouldReauthenticate this now \<longleftrightarrow>
     (\<exists>t s l. this_token this = Some t \<and> t \<noteq> [] \<and> this_sessionId this = Some s \<and> s \<noteq> []
        \<and> this_lastLoginTime this = Some l \<and> l \<noteq> 0 \<and> now - l \<le> 30 * 60 * 1000)"
proof (cases "this_token this")
  case None
  then show ?thesis by (simp add: shouldReauthenticate_def)
next
  case t: (Some t)
  show ?thesis
  proof (cases "this_sessionId this")
    case None
    with t show ?thesis by (simp add: shouldReauthenticate_def)
  next
    case s: (Some s)
    show ?thesis
    proof (cases "this_lastLoginTime this")
      case None
      with t s show ?thesis by (simp add: shouldReauthenticate_def)
    next
      case (Some l)
      with t s show ?thesis by (auto simp add: shouldReauthenticate_def)
    qed
  qed
qed

lemma getToken_cached:
  "\<not> shouldReauthenticate this now \<Longrightarrow>
   getToken axios now now' appId this sent = (Inr (this_token this, this_sessionId this), this, sent)"
  by (simp add: getToken_def)

lemma getToken_sent:
  "snd (snd (getToken axios now now' appId this sent)) =
     (if shouldReauthenticate this now then sent @ [appId] else sent)"
proof (cases "shouldReauthenticate this now")
  case False
  then show ?thesis by (simp add: getToken_cached)
next
  case True
  obtain r s where rs: "requestLogin axios appId sent = (r, s)"
    by (cases "requestLogin axios appId sent")
  with requestLogin_sent [of axios appId sent] have "s = sent @ [appId]" by simp
  with True rs show ?thesis
    by (simp add: getToken_def Let_def split: sum.splits option.splits)
qed

lemma login_fails_reply:
  "login_fails (axios_default (Reply r)) \<longleftrightarrow>
     \<not> validateStatus (status r) \<or> \<not> truthy_string (map_of (headers r) ''ubi-sessionid'')"
  by (simp add: login_fails_def)

lemma getToken_failed:
  assumes re: "shouldReauthenticate this now" and fails: "login_fails (axios appId)"
  shows "\<exists>e. getToken axios now now' appId this sent = (Inl e, this, sent @ [appId])
           \<and> fst (requestLogin axios appId sent) = Inl e"
proof -
  from fails obtain e where e: "fst (requestLogin axios appId sent) = Inl e"
    using requestLogin_fails_iff [where axios = axios and appId = appId and sent = sent] by blast
  with requestLogin_sent [of axios appId sent]
  have "requestLogin axios appId sent = (Inl e, sent @ [appId])"
    by (cases "requestLogin axios appId sent") simp
  with re have "getToken axios now now' appId this sent = (Inl e, this, sent @ [appId])"
    by (simp add: getToken_def)
  with e show ?thesis by blast
qed

section \<open>Facts about the two caching revisions of \<^verbatim>\<open>Login\<close>\<close>

lemma loadToken_Some_iff:
  "loadToken fs now version = Some token \<longleftrightarrow>
     fs (token_path version) = Some (JSON_text token)
     \<and> (\<exists>e. expiration token = Some (ISO e) \<and> now + 5 * 60 * 1000 < e)"
  by (auto simp add: loadToken_eq split: option.splits file_text.splits date_string.splits if_splits)

lemma loadToken_expired:
  assumes "fs (token_path version) = Some (JSON_text old)" "expiration old = Some (ISO e)" "e \<le> now"
  shows "loadToken fs now version = None"
  using assms by (simp add: loadToken_eq)

lemma RequestLogin_defaulting_fulfilled:
  assumes "axios appId = Fulfilled r" "truthy_string (map_of (headers r) ''ubi-sessionid'')"
  shows "RequestLogin_defaulting axios t appId sent =
           (Inr (Some ((data r)\<lparr>sessionId := map_of (headers r) ''ubi-sessionid'',
                                  expiration := (if truthy_date (expiration (data r))
                                                 then expiration (data r)
                                                 else Some (ISO (t + 30 * 60 * 1000)))\<rparr>)),
            sent @ [appId])"
  using assms by (simp add: RequestLogin_defaulting_def Let_def toISOString_def)

lemma Login_defaulting_requests:
  "requests (snd (Login_defaulting axios clock w)) =
     requests w
     @ (if loadToken (files w) (load_v2 clock) V2 = None then [UbiAppId_v2] else [])
     @ (if \<exists>e. fst (Login_block (RequestLogin_defaulting axios (login_v2 clock)) (load_v2 clock) V2 UbiAppId_v2 w) = Inl e
        then []
        else if loadToken (files w) (load_v3 clock) V3 = None then [UbiAppId_v3] else [])"
proof -
  let ?b2 = "Login_block (RequestLogin_defaulting axios (login_v2 clock)) (load_v2 clock) V2 UbiAppId_v2 w"
  obtain r2 w2 where b2: "?b2 = (r2, w2)" by (cases ?b2)
  have q2: "requests w2 = requests w
      @ (if loadToken (files w) (load_v2 clock) V2 = None then [UbiAppId_v2] else [])"
    using Login_block_requests [of "RequestLogin_defaulting axios (login_v2 clock)" UbiAppId_v2 "load_v2 clock" V2 w] b2
    by (simp add: RequestLogin_defaulting_sent)
  show ?thesis
  proof (cases r2)
    case (Inl e)
    with b2 have "requests (snd (Login_defaulting axios clock w)) = requests w2"
      by (simp add: Login_defaulting_thrown)
    with q2 b2 Inl show ?thesis by simp
  next
    case (Inr u)
    let ?b3 = "Login_block (RequestLogin_defaulting axios (login_v3 clock)) (load_v3 clock) V3 UbiAppId_v3 w2"
    have "files w2 (token_path V3) = files w (token_path V3)"
      using Login_block_other_file [of "token_path V3" V2 "RequestLogin_defaulting axios (login_v2 clock)" "load_v2 clock" UbiAppId_v2 w] b2
      by (simp add: token_path_def token_path_distinct [symmetric])
    then have l3: "loadToken (files w2) (load_v3 clock) V3 = loadToken (files w) (load_v3 clock) V3"
      by (simp add: loadToken_eq)
    have q3: "requests (snd ?b3) = requests w2
        @ (if loadToken (files w2) (load_v3 clock) V3 = None then [UbiAppId_v3] else [])"
      using Login_block_requests [of "RequestLogin_defaulting axios (login_v3 clock)" UbiAppId_v3 "load_v3 clock" V3 w2]
      by (simp add: RequestLogin_defaulting_sent)
    from b2 Inr have "requests (snd (Login_defaulting axios clock w)) = requests (snd ?b3)"
      by (simp add: Login_defaulting_continued Login_catch_requests)
    with q2 q3 l3 b2 Inr show ?thesis by simp
  qed
qed

lemma Login_defaulting_returns: "fst (Login_defaulting axios clock w) = Inr ()"
  by (simp add: Login_defaulting_def Login_catch_returns)

lemma Login_defaulting_valid:
  assumes "loadToken (files w) (load_v2 clock) V2 = Some t2"
    and "loadToken (files w) (load_v3 clock) V3 = Some t3"
  shows "Login_defaulting axios clock w = (Inr (), w)"
proof -
  have "Login_block (RequestLogin_defaulting axios (login_v2 clock)) (load_v2 clock) V2 UbiAppId_v2 w = (Inr (), w)"
    by (rule Login_block_valid [OF assms(1)])
  then have "Login_defaulting axios clock w =
      Login_catch (Login_block (RequestLogin_defaulting axios (login_v3 clock)) (load_v3 clock) V3 UbiAppId_v3 w)"
    by (rule Login_defaulting_continued)
  also have "\<dots> = Login_catch (Inr (), w)"
    by (simp add: Login_block_valid [OF assms(2)])
  finally show ?thesis by simp
qed

lemma Login_defaulting_failed_v2:
  assumes load: "loadToken (files w) (load_v2 clock) V2 = None"
    and fails: "login_fails (axios UbiAppId_v2)"
  shows "\<exists>e. Login_defaulting axios clock w =
           (Inr (), w\<lparr>requests := requests w @ [UbiAppId_v2], console := console w @ [e]\<rparr>)"
proof -
  from fails obtain e where "fst (RequestLogin_defaulting axios (login_v2 clock) UbiAppId_v2 (requests w)) = Inl e"
    using RequestLogin_defaulting_fails_iff [where axios = axios and appId = UbiAppId_v2
        and sent = "requests w" and now = "login_v2 clock"] by blast
  then have "RequestLogin_defaulting axios (login_v2 clock) UbiAppId_v2 (requests w) = (Inl e, requests w @ [UbiAppId_v2])"
    using RequestLogin_defaulting_sent [of axios "login_v2 clock" UbiAppId_v2 "requests w"]
    by (cases "RequestLogin_defaulting axios (login_v2 clock) UbiAppId_v2 (requests w)") simp
  with load have "Login_block (RequestLogin_defaulting axios (login_v2 clock)) (load_v2 clock) V2 UbiAppId_v2 w =
      (Inl e, w\<lparr>requests := requests w @ [UbiAppId_v2]\<rparr>)"
    by (simp add: Login_block_def)
  then have "Login_defaulting axios clock w =
      (Inr (), w\<lparr>requests := requests w @ [UbiAppId_v2], console := console w @ [e]\<rparr>)"
    by (simp add: Login_defaulting_thrown)
  then show ?thesis ..
qed

lemma Login_block_defaulting_failing:
  assumes "login_fails (axios appId)"
  shows "files (snd (Login_block (RequestLogin_defaulting axios t) now version appId w)) = files w"
proof -
  from assms obtain e where "fst (RequestLogin_defaulting axios t appId (requests w)) = Inl e"
    using RequestLogin_defaulting_fails_iff [where axios = axios and appId = appId
        and sent = "requests w" and now = t] by blast
  with Login_block_files [of "RequestLogin_defaulting axios t" now version appId w] show ?thesis by auto
qed

lemma Login_defaulting_failing_v2:
  assumes "login_fails (axios UbiAppId_v2)"
  shows "files (snd (Login_defaulting axios clock w)) TOKEN_PATH_V2 = files w TOKEN_PATH_V2"
proof -
  let ?b2 = "Login_block (RequestLogin_defaulting axios (login_v2 clock)) (load_v2 clock) V2 UbiAppId_v2 w"
  obtain r2 w2 where b2: "?b2 = (r2, w2)" by (cases ?b2)
  have f2: "files w2 = files w"
    using Login_block_defaulting_failing [where axios = axios and appId = UbiAppId_v2 and w = w
        and now = "load_v2 clock" and version = V2 and t = "login_v2 clock", OF assms] b2 by simp
  show ?thesis
  proof (cases r2)
    case (Inl e)
    with b2 f2 show ?thesis by (simp add: Login_defaulting_thrown)
  next
    case (Inr u)
    let ?b3 = "Login_block (RequestLogin_defaulting axios (login_v3 clock)) (load_v3 clock) V3 UbiAppId_v3 w2"
    have "files (snd ?b3) TOKEN_PATH_V2 = files w2 TOKEN_PATH_V2"
      by (rule Login_block_other_file) (simp add: token_path_def token_path_distinct)
    with b2 Inr f2 show ?thesis
      by (simp add: Login_defaulting_continued Login_catch_files)
  qed
qed

lemma Login_defaulting_failing_v3:
  assumes "login_fails (axios UbiAppId_v3)"
  shows "files (snd (Login_defaulting axios clock w)) TOKEN_PATH_V3 = files w TOKEN_PATH_V3"
proof -
  let ?b2 = "Login_block (RequestLogin_defaulting axios (login_v2 clock)) (load_v2 clock) V2 UbiAppId_v2 w"
  obtain r2 w2 where b2: "?b2 = (r2, w2)" by (cases ?b2)
  have f2: "files w2 TOKEN_PATH_V3 = files w TOKEN_PATH_V3"
    using Login_block_other_file [of TOKEN_PATH_V3 V2 "RequestLogin_defaulting axios (login_v2 clock)" "load_v2 clock" UbiAppId_v2 w] b2
    by (simp add: token_path_def token_path_distinct [symmetric])
  show ?thesis
  proof (cases r2)
    case (Inl e)
    with b2 f2 show ?thesis by (simp add: Login_defaulting_thrown)
  next
    case (Inr u)
    have "files (snd (Login_block (RequestLogin_defaulting axios (login_v3 clock)) (load_v3 clock) V3 UbiAppId_v3 w2)) = files w2"
      by (rule Login_block_defaulting_failing [where axios = axios and appId = UbiAppId_v3, OF assms])
    with b2 Inr f2 show ?thesis
      by (simp add: Login_defaulting_continued Login_catch_files)
  qed
qed

lemma Login_cached_requests:
  "requests (snd (Login_cached axios clock w)) =
     requests w
     @ (if loadToken (files w) (load_v2 clock) V2 = None then [UbiAppId_v2] else [])
     @ (if \<exists>e. fst (Login_block (RequestLogin_cached axios) (load_v2 clock) V2 UbiAppId_v2 w) = Inl e
        then []
        else if loadToken (files w) (load_v3 clock) V3 = None then [UbiAppId_v3] else [])"
proof -
  let ?b2 = "Login_block (RequestLogin_cached axios) (load_v2 clock) V2 UbiAppId_v2 w"
  obtain r2 w2 where b2: "?b2 = (r2, w2)" by (cases ?b2)
  have q2: "requests w2 = requests w
      @ (if loadToken (files w) (load_v2 clock) V2 = None then [UbiAppId_v2] else [])"
    using Login_block_requests [of "RequestLogin_cached axios" UbiAppId_v2 "load_v2 clock" V2 w] b2
    by (simp add: RequestLogin_cached_sent)
  show ?thesis
  proof (cases r2)
    case (Inl e)
    with b2 have "requests (snd (Login_cached axios clock w)) = requests w2"
      by (simp add: Login_cached_thrown)
    with q2 b2 Inl show ?thesis by simp
  next
    case (Inr u)
    let ?b3 = "Login_block (RequestLogin_cached axios) (load_v3 clock) V3 UbiAppId_v3 w2"
    have "files w2 (token_path V3) = files w (token_path V3)"
      using Login_block_other_file [of "token_path V3" V2 "RequestLogin_cached axios" "load_v2 clock" UbiAppId_v2 w] b2
      by (simp add: token_path_def token_path_distinct [symmetric])
    then have l3: "loadToken (files w2) (load_v3 clock) V3 = loadToken (files w) (load_v3 clock) V3"
      by (simp add: loadToken_eq)
    have q3: "requests (snd ?b3) = requests w2
        @ (if loadToken (files w2) (load_v3 clock) V3 = None then [UbiAppId_v3] else [])"
      using Login_block_requests [of "RequestLogin_cached axios" UbiAppId_v3 "load_v3 clock" V3 w2]
      by (simp add: RequestLogin_cached_sent)
    from b2 Inr have "requests (snd (Login_cached axios clock w)) = requests (snd ?b3)"
      by (simp add: Login_cached_continued Login_catch_requests)
    with q2 q3 l3 b2 Inr show ?thesis by simp
  qed
qed

lemma Login_cached_returns: "fst (Login_cached axios clock w) = Inr ()"
  by (simp add: Login_cached_def Login_catch_returns)

lemma Login_cached_valid:
  assumes "loadToken (files w) (load_v2 clock) V2 = Some t2"
    and "loadToken (files w) (load_v3 clock) V3 = Some t3"
  shows "Login_cached axios clock w = (Inr (), w)"
proof -
  have "Login_block (RequestLogin_cached axios) (load_v2 clock) V2 UbiAppId_v2 w = (Inr (), w)"
    by (rule Login_block_valid [OF assms(1)])
  then have "Login_cached axios clock w =
      Login_catch (Login_block (RequestLogin_cached axios) (load_v3 clock) V3 UbiAppId_v3 w)"
    by (rule Login_cached_continued)
  also have "\<dots> = Login_catch (Inr (), w)"
    by (simp add: Login_block_valid [OF assms(2)])
  finally show ?thesis by simp
qed

lemma Login_cached_failed_v2:
  assumes load: "loadToken (files w) (load_v2 clock) V2 = None"
    and fails: "login_fails (axios UbiAppId_v2)"
  shows "\<exists>e. Login_cached axios clock w =
           (Inr (), w\<lparr>requests := requests w @ [UbiAppId_v2], console := console w @ [e]\<rparr>)"
proof -
  from fails obtain e where "fst (RequestLogin_cached axios UbiAppId_v2 (requests w)) = Inl e"
    using RequestLogin_cached_fails_iff [where axios = axios and appId = UbiAppId_v2
        and sent = "requests w"] by blast
  then have "RequestLogin_cached axios UbiAppId_v2 (requests w) = (Inl e, requests w @ [UbiAppId_v2])"
    using RequestLogin_cached_sent [of axios UbiAppId_v2 "requests w"]
    by (cases "RequestLogin_cached axios UbiAppId_v2 (requests w)") simp
  with load have "Login_block (RequestLogin_cached axios) (load_v2 clock) V2 UbiAppId_v2 w =
      (Inl e, w\<lparr>requests := requests w @ [UbiAppId_v2]\<rparr>)"
    by (simp add: Login_block_def)
  then have "Login_cached axios clock w =
      (Inr (), w\<lparr>requests := requests w @ [UbiAppId_v2], console := console w @ [e]\<rparr>)"
    by (simp add: Login_cached_thrown)
  then show ?thesis ..
qed

lemma Login_block_cached_failing:
  assumes "login_fails (axios appId)"
  shows "files (snd (Login_block (RequestLogin_cached axios) now version appId w)) = files w"
proof -
  from assms obtain e where "fst (RequestLogin_cached axios appId (requests w)) = Inl e"
    using RequestLogin_cached_fails_iff [where axios = axios and appId = appId
        and sent = "requests w"] by blast
  with Login_block_files [of "RequestLogin_cached axios" now version appId w] show ?thesis by auto
qed

lemma Login_cached_failing_v2:
  assumes "login_fails (axios UbiAppId_v2)"
  shows "files (snd (Login_cached axios clock w)) TOKEN_PATH_V2 = files w TOKEN_PATH_V2"
proof -
  let ?b2 = "Login_block (RequestLogin_cached axios) (load_v2 clock) V2 UbiAppId_v2 w"
  obtain r2 w2 where b2: "?b2 = (r2, w2)" by (cases ?b2)
  have f2: "files w2 = files w"
    using Login_block_cached_failing [where axios = axios and appId = UbiAppId_v2 and w = w
        and now = "load_v2 clock" and version = V2, OF assms] b2 by simp
  show ?thesis
  proof (cases r2)
    case (Inl e)
    with b2 f2 show ?thesis by (simp add: Login_cached_thrown)
  next
    case (Inr u)
    let ?b3 = "Login_block (RequestLogin_cached axios) (load_v3 clock) V3 UbiAppId_v3 w2"
    have "files (snd ?b3) TOKEN_PATH_V2 = files w2 TOKEN_PATH_V2"
      by (rule Login_block_other_file) (simp add: token_path_def token_path_distinct)
    with b2 Inr f2 show ?thesis
      by (simp add: Login_cached_continued Login_catch_files)
  qed
qed

lemma Login_cached_failing_v3:
  assumes "login_fails (axios UbiAppId_v3)"
  shows "files (snd (Login_cached axios clock w)) TOKEN_PATH_V3 = files w TOKEN_PATH_V3"
proof -
  let ?b2 = "Login_block (RequestLogin_cached axios) (load_v2 clock) V2 UbiAppId_v2 w"
  obtain r2 w2 where b2: "?b2 = (r2, w2)" by (cases ?b2)
  have f2: "files w2 TOKEN_PATH_V3 = files w TOKEN_PATH_V3"
    using Login_block_other_file [of TOKEN_PATH_V3 V2 "RequestLogin_cached axios" "load_v2 clock" UbiAppId_v2 w] b2
    by (simp add: token_path_def token_path_distinct [symmetric])
  show ?thesis
  proof (cases r2)
    case (Inl e)
    with b2 f2 show ?thesis by (simp add: Login_cached_thrown)
  next
    case (Inr u)
    have "files (snd (Login_block (RequestLogin_cached axios) (load_v3 clock) V3 UbiAppId_v3 w2)) = files w2"
      by (rule Login_block_cached_failing [where axios = axios and appId = UbiAppId_v3, OF assms])
    with b2 Inr f2 show ?thesis
      by (simp add: Login_cached_continued Login_catch_files)
  qed
qed

lemma Login_uncached_returns: "fst (Login_uncached SaveJSONToFile axios w) = Inr ()"
  by (simp add: Login_uncached_def Login_catch_returns)

section \<open>What a failed login leaves behind\<close>

lemma Login_block_thrown_value:
  assumes load: "loadToken (files w) now version = None"
    and thrown: "fst (request appId (requests w)) = Inl e"
    and log: "snd (request appId (requests w)) = requests w @ [appId]"
  shows "Login_block request now version appId w = (Inl e, w\<lparr>requests := requests w @ [appId]\<rparr>)"
proof -
  from thrown log have "request appId (requests w) = (Inl e, requests w @ [appId])"
    by (cases "request appId (requests w)") simp
  with load show ?thesis by (simp add: Login_block_def)
qed

lemma Login_block_keeps_v3:
  "loadToken (files (snd (Login_block request now V2 appId w))) t V3 = loadToken (files w) t V3"
proof -
  have "files (snd (Login_block request now V2 appId w)) (token_path V3) = files w (token_path V3)"
    by (rule Login_block_other_file) (simp add: token_path_def token_path_distinct [symmetric])
  then show ?thesis by (simp add: loadToken_eq)
qed

lemma Login_uncached_block_thrown_value:
  assumes "fst (RequestLogin_uncached axios appId (requests w)) = Inl e"
  shows "Login_uncached_block SaveJSONToFile axios filePath appId w =
           (Inl e, w\<lparr>requests := requests w @ [appId]\<rparr>)"
proof -
  from assms RequestLogin_uncached_sent [of axios appId "requests w"]
  have "RequestLogin_uncached axios appId (requests w) = (Inl e, requests w @ [appId])"
    by (cases "RequestLogin_uncached axios appId (requests w)") simp
  then show ?thesis by (simp add: Login_uncached_block_def)
qed

lemma Login_uncached_thrown:
  "Login_uncached_block SaveJSONToFile axios ''private/auth_token_v2.json'' UbiAppId_v2 w
     = (Inl e, wv) \<Longrightarrow>
   Login_uncached SaveJSONToFile axios w = (Inr (), wv\<lparr>console := console wv @ [e]\<rparr>)"
  by (simp add: Login_uncached_def)

lemma Login_uncached_continued:
  "Login_uncached_block SaveJSONToFile axios ''private/auth_token_v2.json'' UbiAppId_v2 w
     = (Inr u, wv) \<Longrightarrow>
   Login_uncached SaveJSONToFile axios w =
     Login_catch (Login_uncached_block SaveJSONToFile axios ''private/auth_token_v3.json''
                    UbiAppId_v3 wv)"
  by (simp add: Login_uncached_def)

lemma Login_uncached_v2_thrown:
  assumes "fst (RequestLogin_uncached axios UbiAppId_v2 (requests w)) = Inl e"
  shows "Login_uncached SaveJSONToFile axios w =
           (Inr (), w\<lparr>requests := requests w @ [UbiAppId_v2], console := console w @ [e]\<rparr>)"
proof -
  have "Login_uncached_block SaveJSONToFile axios ''private/auth_token_v2.json'' UbiAppId_v2 w =
      (Inl e, w\<lparr>requests := requests w @ [UbiAppId_v2]\<rparr>)"
    by (rule Login_uncached_block_thrown_value [OF assms])
  then show ?thesis by (simp add: Login_uncached_thrown)
qed

lemma Login_uncached_v3_thrown:
  assumes b: "fst (Login_uncached_block SaveJSONToFile axios ''private/auth_token_v2.json''
                 UbiAppId_v2 w) = Inr u"
    and thrown: "fst (RequestLogin_uncached axios UbiAppId_v3
        (requests (snd (Login_uncached_block SaveJSONToFile axios ''private/auth_token_v2.json''
                          UbiAppId_v2 w)))) = Inl e"
  shows "Login_uncached SaveJSONToFile axios w =
           (Inr (),
            (snd (Login_uncached_block SaveJSONToFile axios ''private/auth_token_v2.json''
                    UbiAppId_v2 w))
            \<lparr>requests :=
               requests (snd (Login_uncached_block SaveJSONToFile axios
                                ''private/auth_token_v2.json'' UbiAppId_v2 w)) @ [UbiAppId_v3],
             console :=
               console (snd (Login_uncached_block SaveJSONToFile axios
                               ''private/auth_token_v2.json'' UbiAppId_v2 w)) @ [e]\<rparr>)"
proof -
  obtain wv where wv: "Login_uncached_block SaveJSONToFile axios ''private/auth_token_v2.json''
      UbiAppId_v2 w = (Inr u, wv)"
    using b by (cases "Login_uncached_block SaveJSONToFile axios ''private/auth_token_v2.json''
      UbiAppId_v2 w") simp
  from thrown wv have t: "fst (RequestLogin_uncached axios UbiAppId_v3 (requests wv)) = Inl e"
    by simp
  have "Login_uncached_block SaveJSONToFile axios ''private/auth_token_v3.json'' UbiAppId_v3 wv =
      (Inl e, wv\<lparr>requests := requests wv @ [UbiAppId_v3]\<rparr>)"
    by (rule Login_uncached_block_thrown_value [OF t])
  with wv show ?thesis by (simp add: Login_uncached_continued)
qed

lemma Login_defaulting_v2_thrown:
  assumes load: "loadToken (files w) (load_v2 clock) V2 = None"
    and thrown: "fst (RequestLogin_defaulting axios (login_v2 clock) UbiAppId_v2 (requests w)) = Inl e"
  shows "Login_defaulting axios clock w =
           (Inr (), w\<lparr>requests := requests w @ [UbiAppId_v2], console := console w @ [e]\<rparr>)"
proof -
  have "Login_block (RequestLogin_defaulting axios (login_v2 clock)) (load_v2 clock) V2 UbiAppId_v2 w =
      (Inl e, w\<lparr>requests := requests w @ [UbiAppId_v2]\<rparr>)"
    by (rule Login_block_thrown_value
          [where request = "RequestLogin_defaulting axios (login_v2 clock)" and appId = UbiAppId_v2,
           OF load thrown RequestLogin_defaulting_sent])
  then show ?thesis by (simp add: Login_defaulting_thrown)
qed

lemma Login_cached_v2_thrown:
  assumes load: "loadToken (files w) (load_v2 clock) V2 = None"
    and thrown: "fst (RequestLogin_cached axios UbiAppId_v2 (requests w)) = Inl e"
  shows "Login_cached axios clock w =
           (Inr (), w\<lparr>requests := requests w @ [UbiAppId_v2], console := console w @ [e]\<rparr>)"
proof -
  have "Login_block (RequestLogin_cached axios) (load_v2 clock) V2 UbiAppId_v2 w =
      (Inl e, w\<lparr>requests := requests w @ [UbiAppId_v2]\<rparr>)"
    by (rule Login_block_thrown_value
          [where request = "RequestLogin_cached axios" and appId = UbiAppId_v2,
           OF load thrown RequestLogin_cached_sent])
  then show ?thesis by (simp add: Login_cached_thrown)
qed

lemma Login_defaulting_v3_thrown:
  assumes b: "fst (Login_block (RequestLogin_defaulting axios (login_v2 clock)) (load_v2 clock)
                 V2 UbiAppId_v2 w) = Inr u"
    and load: "loadToken (files w) (load_v3 clock) V3 = None"
    and thrown: "fst (RequestLogin_defaulting axios (login_v3 clock) UbiAppId_v3
        (requests (snd (Login_block (RequestLogin_defaulting axios (login_v2 clock))
                          (load_v2 clock) V2 UbiAppId_v2 w)))) = Inl e"
  shows "Login_defaulting axios clock w =
           (Inr (),
            (snd (Login_block (RequestLogin_defaulting axios (login_v2 clock)) (load_v2 clock)
                    V2 UbiAppId_v2 w))
            \<lparr>requests :=
               requests (snd (Login_block (RequestLogin_defaulting axios (login_v2 clock))
                                (load_v2 clock) V2 UbiAppId_v2 w)) @ [UbiAppId_v3],
             console :=
               console (snd (Login_block (RequestLogin_defaulting axios (login_v2 clock))
                               (load_v2 clock) V2 UbiAppId_v2 w)) @ [e]\<rparr>)"
proof -
  let ?b = "Login_block (RequestLogin_defaulting axios (login_v2 clock)) (load_v2 clock)
      V2 UbiAppId_v2 w"
  obtain wv where wv: "?b = (Inr u, wv)" using b by (cases ?b) simp
  have "loadToken (files (snd ?b)) (load_v3 clock) V3 = loadToken (files w) (load_v3 clock) V3"
    by (rule Login_block_keeps_v3)
  with wv load have l: "loadToken (files wv) (load_v3 clock) V3 = None" by simp
  from thrown wv
  have t: "fst (RequestLogin_defaulting axios (login_v3 clock) UbiAppId_v3 (requests wv)) = Inl e"
    by simp
  have "Login_block (RequestLogin_defaulting axios (login_v3 clock)) (load_v3 clock) V3 UbiAppId_v3 wv =
      (Inl e, wv\<lparr>requests := requests wv @ [UbiAppId_v3]\<rparr>)"
    by (rule Login_block_thrown_value
          [where request = "RequestLogin_defaulting axios (login_v3 clock)" and appId = UbiAppId_v3,
           OF l t RequestLogin_defaulting_sent])
  with wv show ?thesis by (simp add: Login_defaulting_continued)
qed

lemma Login_cached_v3_thrown:
  assumes b: "fst (Login_block (RequestLogin_cached axios) (load_v2 clock) V2 UbiAppId_v2 w) = Inr u"
    and load: "loadToken (files w) (load_v3 clock) V3 = None"
    and thrown: "fst (RequestLogin_cached axios UbiAppId_v3
        (requests (snd (Login_block (RequestLogin_cached axios) (load_v2 clock)
                          V2 UbiAppId_v2 w)))) = Inl e"
  shows "Login_cached axios clock w =
           (Inr (),
            (snd (Login_block (RequestLogin_cached axios) (load_v2 clock) V2 UbiAppId_v2 w))
            \<lparr>requests :=
               requests (snd (Login_block (RequestLogin_cached axios) (load_v2 clock)
                                V2 UbiAppId_v2 w)) @ [UbiAppId_v3],
             console :=
               console (snd (Login_block (RequestLogin_cached axios) (load_v2 clock)
                               V2 UbiAppId_v2 w)) @ [e]\<rparr>)"
proof -
  let ?b = "Login_block (RequestLogin_cached axios) (load_v2 clock) V2 UbiAppId_v2 w"
  obtain wv where wv: "?b = (Inr u, wv)" using b by (cases ?b) simp
  have "loadToken (files (snd ?b)) (load_v3 clock) V3 = loadToken (files w) (load_v3 clock) V3"
    by (rule Login_block_keeps_v3)
  with wv load have l: "loadToken (files wv) (load_v3 clock) V3 = None" by simp
  from thrown wv
  have t: "fst (RequestLogin_cached axios UbiAppId_v3 (requests wv)) = Inl e"
    by simp
  have "Login_block (RequestLogin_cached axios) (load_v3 clock) V3 UbiAppId_v3 wv =
      (Inl e, wv\<lparr>requests := requests wv @ [UbiAppId_v3]\<rparr>)"
    by (rule Login_block_thrown_value
          [where request = "RequestLogin_cached axios" and appId = UbiAppId_v3,
           OF l t RequestLogin_cached_sent])
  with wv show ?thesis by (simp add: Login_cached_continued)
qed

lemma getToken_thrown_value:
  assumes re: "shouldReauthenticate this now"
    and thrown: "fst (requestLogin axios appId sent) = Inl e"
  shows "getToken axios now now' appId this sent = (Inl e, this, sent @ [appId])"
proof -
  from thrown requestLogin_sent [of axios appId sent]
  have "requestLogin axios appId sent = (Inl e, sent @ [appId])"
    by (cases "requestLogin axios appId sent") simp
  with re show ?thesis by (simp add: getToken_def)
qed

lemma getToken_returns_stored:
  assumes "getToken axios now now' appId this sent = (Inr pair, this', sent')"
  shows "pair = (this_token this', this_sessionId this')"
proof (cases "shouldReauthenticate this now")
  case False
  with assms show ?thesis by (auto simp add: getToken_cached)
next
  case True
  obtain r s where rs: "requestLogin axios appId sent = (r, s)"
    by (cases "requestLogin axios appId sent")
  with True assms show ?thesis
    by (auto simp add: getToken_def Let_def split: sum.splits option.splits)
qed

section \<open>When a cached credential is reused\<close>

text \<open>
  Claim C1 (as amended). The manager in memory reuses its credential exactly when token,
  session identifier and login time are all set and at most 30 minutes have passed since
  the login; it has no expiration to look at. \<^verbatim>\<open>loadToken\<close> returns the token of a
  file exactly when the file holds one whose expiration is a date more than 5 minutes
  ahead; a token without expiration is never returned, however recently it was saved.
  In both, a login request is issued only when that test fails: \<^verbatim>\<open>getToken\<close> sends
  one request if \<^verbatim>\<open>shouldReauthenticate\<close> holds and none otherwise, and a block of
  \<^verbatim>\<open>Login\<close> sends one request if \<^verbatim>\<open>loadToken\<close> returned null and none otherwise.
\<close>

theorem C1_validity:
  "(\<not> shouldReauthenticate this now \<longleftrightarrow>
      (\<exists>t s l. this_token this = Some t \<and> t \<noteq> [] \<and> this_sessionId this = Some s \<and> s \<noteq> []
         \<and> this_lastLoginTime this = Some l \<and> l \<noteq> 0 \<and> now - l \<le> 30 * 60 * 1000))
   \<and> (loadToken fs nowf version = Some token \<longleftrightarrow>
        fs (token_path version) = Some (JSON_text token)
        \<and> (\<exists>e. expiration token = Some (ISO e) \<and> nowf + 5 * 60 * 1000 < e))
   \<and> snd (snd (getToken axios now now' appId this sent)) =
        (if shouldReauthenticate this now then sent @ [appId] else sent)
   \<and> requests (snd (Login_block (RequestLogin_defaulting axiosf t) nowf version app w)) =
        requests w @ (if loadToken (files w) nowf version = None then [app] else [])
   \<and> requests (snd (Login_block (RequestLogin_cached axiosf) nowf version app w)) =
        requests w @ (if loadToken (files w) nowf version = None then [app] else [])"
proof (intro conjI)
  show "requests (snd (Login_block (RequestLogin_defaulting axiosf t) nowf version app w)) =
        requests w @ (if loadToken (files w) nowf version = None then [app] else [])"
    by (rule Login_block_requests) (rule RequestLogin_defaulting_sent)
  show "requests (snd (Login_block (RequestLogin_cached axiosf) nowf version app w)) =
        requests w @ (if loadToken (files w) nowf version = None then [app] else [])"
    by (rule Login_block_requests) (rule RequestLogin_cached_sent)
qed (rule shouldReauthenticate_iff loadToken_Some_iff getToken_sent)+

theorem C1_validity_witness:
  "\<not> shouldReauthenticate cached_manager 2000
   \<and> shouldReauthenticate cached_manager 1801001
   \<and> snd (snd (getToken example_service 2000 2001 ''app-v2'' cached_manager [])) = []
   \<and> loadToken (files (world_with TOKEN_PATH_V2 fresh_token)) 1000000 V2 = Some fresh_token
   \<and> requests (snd (Login_block (RequestLogin_cached (answering (Reply ok_reply))) 1000000 V2
        UbiAppId_v2 (world_with TOKEN_PATH_V2 fresh_token))) = []"
proof -
  note c = C1_validity [where this = cached_manager and now = 2000 and now' = 2001
      and axios = example_service and appId = "''app-v2''" and sent = "[]"
      and fs = "files (world_with TOKEN_PATH_V2 fresh_token)" and nowf = 1000000 and version = V2
      and token = fresh_token and axiosf = "answering (Reply ok_reply)" and t = 0
      and app = UbiAppId_v2 and w = "world_with TOKEN_PATH_V2 fresh_token"]
  have "\<exists>t s l. this_token cached_manager = Some t \<and> t \<noteq> [] \<and> this_sessionId cached_manager = Some s
      \<and> s \<noteq> [] \<and> this_lastLoginTime cached_manager = Some l \<and> l \<noteq> 0 \<and> 2000 - l \<le> 30 * 60 * 1000"
    by (simp add: cached_manager_def)
  with c have 1: "\<not> shouldReauthenticate cached_manager 2000" by (simp only:)
  have 2: "shouldReauthenticate cached_manager 1801001" by code_simp
  from c 1 have 3: "snd (snd (getToken example_service 2000 2001 ''app-v2'' cached_manager [])) = []"
    by (simp only: if_False)
  have "files (world_with TOKEN_PATH_V2 fresh_token) (token_path V2) = Some (JSON_text fresh_token)
      \<and> (\<exists>e. expiration fresh_token = Some (ISO e) \<and> 1000000 + 5 * 60 * 1000 < e)"
    by (simp add: world_with_def token_path_def fresh_token_def)
  with c have 4: "loadToken (files (world_with TOKEN_PATH_V2 fresh_token)) 1000000 V2 = Some fresh_token"
    by (simp only:)
  from c 4 have 5: "requests (snd (Login_block (RequestLogin_cached (answering (Reply ok_reply))) 1000000 V2
        UbiAppId_v2 (world_with TOKEN_PATH_V2 fresh_token))) = []"
    by (simp add: world_with_def empty_world_def)
  show ?thesis by (intro conjI 1 2 3 4 5)
qed

text \<open>
  The rule as the specification words it accepts a credential without expiration that
  was obtained one second ago. The caching revision that keeps the response's
  expiration saves such a credential when the response carries none, does not load it
  back, and logs in again for both versions on the next call.
\<close>

theorem C1_counterexample:
  "spec_valid None 1000 2000
   \<and> files (snd (Login_cached (answering (Reply ok_reply)) (clock_at 1000) empty_world)) TOKEN_PATH_V2 =
       Some (JSON_text (example_data\<lparr>sessionId := Some ''session-1''\<rparr>))
   \<and> expiration (example_data\<lparr>sessionId := Some ''session-1''\<rparr>) = None
   \<and> loadToken (files (snd (Login_cached (answering (Reply ok_reply)) (clock_at 1000) empty_world)))
        2000 V2 = None
   \<and> requests (snd (Login_cached (answering (Reply ok_reply)) (clock_at 2000)
        (snd (Login_cached (answering (Reply ok_reply)) (clock_at 1000) empty_world)))) =
       [UbiAppId_v2, UbiAppId_v3, UbiAppId_v2, UbiAppId_v3]"
  by code_simp

text \<open>
  Claim C5. When the credential in memory is valid at the clock readings of two
  successive calls of \<^verbatim>\<open>getToken\<close>, both calls return the cached pair, whose two
  parts are set, and neither sends a request nor changes the manager. Likewise two
  successive calls of \<^verbatim>\<open>Login\<close> that find both token files valid send no request and
  leave the world as it was.
\<close>

theorem C5_idempotent:
  "(\<not> shouldReauthenticate this now \<and> \<not> shouldReauthenticate this later \<longrightarrow>
      getToken axios now now' appId this sent =
        (Inr (this_token this, this_sessionId this), this, sent)
      \<and> getToken axios' later later' appId'
           (fst (snd (getToken axios now now' appId this sent)))
           (snd (snd (getToken axios now now' appId this sent))) =
        (Inr (this_token this, this_sessionId this), this, sent)
      \<and> truthy_string (this_token this) \<and> truthy_string (this_sessionId this))
   \<and> (loadToken (files w) (load_v2 clock) V2 = Some a \<and> loadToken (files w) (load_v3 clock) V3 = Some b
      \<and> loadToken (files w) (load_v2 clock') V2 = Some c \<and> loadToken (files w) (load_v3 clock') V3 = Some d
      \<longrightarrow>
      Login_defaulting axiosf clock w = (Inr (), w)
      \<and> Login_defaulting axiosg clock' (snd (Login_defaulting axiosf clock w)) = (Inr (), w)
      \<and> Login_cached axiosf clock w = (Inr (), w)
      \<and> Login_cached axiosg clock' (snd (Login_cached axiosf clock w)) = (Inr (), w))"
proof (intro conjI impI)
  assume v: "\<not> shouldReauthenticate this now \<and> \<not> shouldReauthenticate this later"
  then have 1: "getToken axios now now' appId this sent =
        (Inr (this_token this, this_sessionId this), this, sent)"
    by (simp add: getToken_cached)
  then show "getToken axios now now' appId this sent =
        (Inr (this_token this, this_sessionId this), this, sent)" .
  from v show "getToken axios' later later' appId'
           (fst (snd (getToken axios now now' appId this sent)))
           (snd (snd (getToken axios now now' appId this sent))) =
        (Inr (this_token this, this_sessionId this), this, sent)"
    by (simp add: 1 getToken_cached)
  from v show "truthy_string (this_token this)" "truthy_string (this_sessionId this)"
    by (simp_all add: shouldReauthenticate_def)
next
  assume v: "loadToken (files w) (load_v2 clock) V2 = Some a \<and> loadToken (files w) (load_v3 clock) V3 = Some b
      \<and> loadToken (files w) (load_v2 clock') V2 = Some c \<and> loadToken (files w) (load_v3 clock') V3 = Some d"
  then have 1: "Login_defaulting axiosf clock w = (Inr (), w)"
    and 2: "Login_defaulting axiosg clock' w = (Inr (), w)"
    and 3: "Login_cached axiosf clock w = (Inr (), w)"
    and 4: "Login_cached axiosg clock' w = (Inr (), w)"
    by (simp_all add: Login_defaulting_valid Login_cached_valid)
  show "Login_defaulting axiosf clock w = (Inr (), w)" by (rule 1)
  show "Login_defaulting axiosg clock' (snd (Login_defaulting axiosf clock w)) = (Inr (), w)"
    by (simp add: 1 2)
  show "Login_cached axiosf clock w = (Inr (), w)" by (rule 3)
  show "Login_cached axiosg clock' (snd (Login_cached axiosf clock w)) = (Inr (), w)"
    by (simp add: 3 4)
qed

theorem C5_idempotent_witness:
  "\<not> shouldReauthenticate cached_manager 2000 \<and> \<not> shouldReauthenticate cached_manager 2005
   \<and> getToken example_service 2005 2006 ''app-v2''
        (fst (snd (getToken example_service 2000 2001 ''app-v2'' cached_manager [])))
        (snd (snd (getToken example_service 2000 2001 ''app-v2'' cached_manager []))) =
      (Inr (this_token cached_manager, this_sessionId cached_manager), cached_manager, [])
   \<and> loadToken (files fresh_world) (load_v2 (clock_at 1000000)) V2 = Some fresh_token
   \<and> loadToken (files fresh_world) (load_v3 (clock_at 1000000)) V3 = Some fresh_token
   \<and> loadToken (files fresh_world) (load_v2 (clock_at 1000005)) V2 = Some fresh_token
   \<and> loadToken (files fresh_world) (load_v3 (clock_at 1000005)) V3 = Some fresh_token
   \<and> Login_cached (answering (Reply ok_reply)) (clock_at 1000005)
        (snd (Login_cached (answering (Reply ok_reply)) (clock_at 1000000) fresh_world)) =
      (Inr (), fresh_world)"
proof -
  note c = C5_idempotent [where this = cached_manager and now = 2000 and later = 2005
          and axios = example_service and axios' = example_service and now' = 2001
          and later' = 2006 and appId = "''app-v2''" and appId' = "''app-v2''" and sent = "[]"
          and w = fresh_world and clock = "clock_at 1000000" and clock' = "clock_at 1000005"
          and axiosf = "answering (Reply ok_reply)" and axiosg = "answering (Reply ok_reply)"
          and a = fresh_token and b = fresh_token and c = fresh_token and d = fresh_token]
  have 1: "\<not> shouldReauthenticate cached_manager 2000" by code_simp
  have 2: "\<not> shouldReauthenticate cached_manager 2005" by code_simp
  have 3: "getToken example_service 2005 2006 ''app-v2''
        (fst (snd (getToken example_service 2000 2001 ''app-v2'' cached_manager [])))
        (snd (snd (getToken example_service 2000 2001 ''app-v2'' cached_manager []))) =
      (Inr (this_token cached_manager, this_sessionId cached_manager), cached_manager, [])"
    by (rule c [THEN conjunct1, THEN mp, OF conjI [OF 1 2], THEN conjunct2, THEN conjunct1])
  have 4: "loadToken (files fresh_world) (load_v2 (clock_at 1000000)) V2 = Some fresh_token"
    by code_simp
  have 5: "loadToken (files fresh_world) (load_v3 (clock_at 1000000)) V3 = Some fresh_token"
    by code_simp
  have 6: "loadToken (files fresh_world) (load_v2 (clock_at 1000005)) V2 = Some fresh_token"
    by code_simp
  have 7: "loadToken (files fresh_world) (load_v3 (clock_at 1000005)) V3 = Some fresh_token"
    by code_simp
  have 8: "Login_cached (answering (Reply ok_reply)) (clock_at 1000005)
        (snd (Login_cached (answering (Reply ok_reply)) (clock_at 1000000) fresh_world)) =
      (Inr (), fresh_world)"
    by (rule c [THEN conjunct2, THEN mp, OF conjI [OF 4 conjI [OF 5 conjI [OF 6 7]]],
          THEN conjunct2, THEN conjunct2, THEN conjunct2])
  show ?thesis by (intro conjI 1 2 3 4 5 6 7 8)
qed

text \<open>
  Claim C8 (as amended). When the token file of a version holds an expiration that is
  not in the future, the block of \<^verbatim>\<open>Login\<close> for that version, once reached, sends
  exactly one login request. If the login succeeds and the file can be written, the file
  then holds the response body with the session identifier and with the body's own
  expiration when it has one, otherwise with the login time plus 30 minutes, which is
  later than the old expiration. Within \<^verbatim>\<open>Login\<close> the block for v2 is always reached;
  the block for v3 is reached unless the block for v2 threw.
\<close>

theorem C8_refresh_on_expiry:
  assumes old: "files w (token_path version) = Some (JSON_text old)"
    and exp: "expiration old = Some (ISO e)"
    and expired: "e \<le> now"
  shows "requests (snd (Login_block (RequestLogin_defaulting axios t) now version appId w)) =
           requests w @ [appId]
       \<and> (axios appId = Fulfilled r \<and> truthy_string (map_of (headers r) ''ubi-sessionid'')
            \<and> \<not> write_fails w (token_path version) \<longrightarrow>
          fst (Login_block (RequestLogin_defaulting axios t) now version appId w) = Inr ()
          \<and> files (snd (Login_block (RequestLogin_defaulting axios t) now version appId w))
               (token_path version) =
             Some (JSON_text ((data r)\<lparr>sessionId := map_of (headers r) ''ubi-sessionid'',
                                        expiration := (if truthy_date (expiration (data r))
                                                       then expiration (data r)
                                                       else Some (ISO (t + 30 * 60 * 1000)))\<rparr>))
          \<and> (\<not> truthy_date (expiration (data r)) \<and> now \<le> t \<longrightarrow> e < t + 30 * 60 * 1000))
       \<and> (version = V2 \<and> now = load_v2 clock \<longrightarrow>
          requests (snd (Login_defaulting axios clock w)) =
            requests w @ [UbiAppId_v2]
            @ (if \<exists>x. fst (Login_block (RequestLogin_defaulting axios (login_v2 clock))
                            (load_v2 clock) V2 UbiAppId_v2 w) = Inl x
               then []
               else if loadToken (files w) (load_v3 clock) V3 = None then [UbiAppId_v3] else []))
       \<and> (version = V3 \<and> now = load_v3 clock \<longrightarrow>
          requests (snd (Login_defaulting axios clock w)) =
            requests w
            @ (if loadToken (files w) (load_v2 clock) V2 = None then [UbiAppId_v2] else [])
            @ (if \<exists>x. fst (Login_block (RequestLogin_defaulting axios (login_v2 clock))
                            (load_v2 clock) V2 UbiAppId_v2 w) = Inl x
               then [] else [UbiAppId_v3]))"
proof -
  have load: "loadToken (files w) now version = None"
    by (rule loadToken_expired [where fs = "files w" and version = version, OF old exp expired])
  have 1: "requests (snd (Login_block (RequestLogin_defaulting axios t) now version appId w)) =
           requests w @ [appId]"
    using Login_block_requests [of "RequestLogin_defaulting axios t" appId now version w] load
    by (simp add: RequestLogin_defaulting_sent)
  have 2: "axios appId = Fulfilled r \<and> truthy_string (map_of (headers r) ''ubi-sessionid'')
            \<and> \<not> write_fails w (token_path version) \<longrightarrow>
          fst (Login_block (RequestLogin_defaulting axios t) now version appId w) = Inr ()
          \<and> files (snd (Login_block (RequestLogin_defaulting axios t) now version appId w))
               (token_path version) =
             Some (JSON_text ((data r)\<lparr>sessionId := map_of (headers r) ''ubi-sessionid'',
                                        expiration := (if truthy_date (expiration (data r))
                                                       then expiration (data r)
                                                       else Some (ISO (t + 30 * 60 * 1000)))\<rparr>))
          \<and> (\<not> truthy_date (expiration (data r)) \<and> now \<le> t \<longrightarrow> e < t + 30 * 60 * 1000)"
  proof (rule impI)
    assume h: "axios appId = Fulfilled r \<and> truthy_string (map_of (headers r) ''ubi-sessionid'')
            \<and> \<not> write_fails w (token_path version)"
    from h have req: "RequestLogin_defaulting axios t appId (requests w) =
           (Inr (Some ((data r)\<lparr>sessionId := map_of (headers r) ''ubi-sessionid'',
                                  expiration := (if truthy_date (expiration (data r))
                                                 then expiration (data r)
                                                 else Some (ISO (t + 30 * 60 * 1000)))\<rparr>)),
            requests w @ [appId])"
      using RequestLogin_defaulting_fulfilled [where axios = axios and appId = appId and r = r
          and t = t and sent = "requests w"] by blast
    have "Login_block (RequestLogin_defaulting axios t) now version appId w =
        saveToken version ((data r)\<lparr>sessionId := map_of (headers r) ''ubi-sessionid'',
                                  expiration := (if truthy_date (expiration (data r))
                                                 then expiration (data r)
                                                 else Some (ISO (t + 30 * 60 * 1000)))\<rparr>)
          (w\<lparr>requests := requests w @ [appId]\<rparr>)"
      by (rule Login_block_saved [where request = "RequestLogin_defaulting axios t"
            and appId = appId, OF load req])
    with h expired
    show "fst (Login_block (RequestLogin_defaulting axios t) now version appId w) = Inr ()
          \<and> files (snd (Login_block (RequestLogin_defaulting axios t) now version appId w))
               (token_path version) =
             Some (JSON_text ((data r)\<lparr>sessionId := map_of (headers r) ''ubi-sessionid'',
                                        expiration := (if truthy_date (expiration (data r))
                                                       then expiration (data r)
                                                       else Some (ISO (t + 30 * 60 * 1000)))\<rparr>))
          \<and> (\<not> truthy_date (expiration (data r)) \<and> now \<le> t \<longrightarrow> e < t + 30 * 60 * 1000)"
      by (simp add: saveToken_eq)
  qed
  have 3: "version = V2 \<and> now = load_v2 clock \<longrightarrow>
            requests (snd (Login_defaulting axios clock w)) =
            requests w @ [UbiAppId_v2]
            @ (if \<exists>x. fst (Login_block (RequestLogin_defaulting axios (login_v2 clock))
                            (load_v2 clock) V2 UbiAppId_v2 w) = Inl x
               then []
               else if loadToken (files w) (load_v3 clock) V3 = None then [UbiAppId_v3] else [])"
    using load by (auto simp add: Login_defaulting_requests)
  have 4: "version = V3 \<and> now = load_v3 clock \<longrightarrow>
            requests (snd (Login_defaulting axios clock w)) =
            requests w
            @ (if loadToken (files w) (load_v2 clock) V2 = None then [UbiAppId_v2] else [])
            @ (if \<exists>x. fst (Login_block (RequestLogin_defaulting axios (login_v2 clock))
                            (load_v2 clock) V2 UbiAppId_v2 w) = Inl x
               then [] else [UbiAppId_v3])"
    using load by (auto simp add: Login_defaulting_requests)
  show ?thesis
    by (rule conjI [OF 1 conjI [OF 2 conjI [OF 3 4]]])
qed

theorem C8_refresh_on_expiry_witness:
  "files (world_with TOKEN_PATH_V2 expired_token) (token_path V2) = Some (JSON_text expired_token)
   \<and> expiration expired_token = Some (ISO 999000) \<and> (999000::int) \<le> 1000000
   \<and> requests (snd (Login_block (RequestLogin_defaulting (answering (Reply ok_reply)) 1000000)
        1000000 V2 UbiAppId_v2 (world_with TOKEN_PATH_V2 expired_token))) =
      requests (world_with TOKEN_PATH_V2 expired_token) @ [UbiAppId_v2]"
proof -
  have 1: "files (world_with TOKEN_PATH_V2 expired_token) (token_path V2) =
      Some (JSON_text expired_token)"
    by (simp add: world_with_def token_path_def)
  have 2: "expiration expired_token = Some (ISO 999000)" by (simp add: expired_token_def)
  have 3: "(999000::int) \<le> 1000000" by simp
  have 4: "requests (snd (Login_block (RequestLogin_defaulting (answering (Reply ok_reply)) 1000000)
        1000000 V2 UbiAppId_v2 (world_with TOKEN_PATH_V2 expired_token))) =
      requests (world_with TOKEN_PATH_V2 expired_token) @ [UbiAppId_v2]"
    by (rule C8_refresh_on_expiry [where axios = "answering (Reply ok_reply)"
          and appId = UbiAppId_v2 and t = 1000000 and r = ok_reply and clock = "clock_at 1000000",
          OF 1 2 3, THEN conjunct1])
  show ?thesis by (intro conjI 1 2 3 4)
qed

text \<open>
  With the v3 token expired one second ago and the v2 login rate-limited, \<^verbatim>\<open>Login\<close>
  sends no request for v3 at all. With the v2 token expired and a response that carries
  the same past expiration, the token saved has an expiration equal to the old one.
\<close>

theorem C8_counterexample:
  "files (world_with TOKEN_PATH_V3 expired_token) TOKEN_PATH_V3 = Some (JSON_text expired_token)
   \<and> expiration expired_token = Some (ISO (1000000 - 1000))
   \<and> requests (snd (Login_defaulting (answering (Reply (example_reply 429 []))) (clock_at 1000000)
        (world_with TOKEN_PATH_V3 expired_token))) = [UbiAppId_v2]
   \<and> files (world_with TOKEN_PATH_V2 expired_token) TOKEN_PATH_V2 = Some (JSON_text expired_token)
   \<and> requests (snd (Login_defaulting (answering (Reply stale_reply)) (clock_at 1000000)
        (world_with TOKEN_PATH_V2 expired_token))) = [UbiAppId_v2, UbiAppId_v3]
   \<and> files (snd (Login_defaulting (answering (Reply stale_reply)) (clock_at 1000000)
        (world_with TOKEN_PATH_V2 expired_token))) TOKEN_PATH_V2 =
      Some (JSON_text (example_data\<lparr>expiration := Some (ISO 999000), sessionId := Some ''session-1''\<rparr>))"
  by code_simp

section \<open>Failed logins\<close>

text \<open>
  Claim C2. A login attempt fails on a reply exactly when its status is not 2xx or its
  session header is missing. When such an attempt is made by \<^verbatim>\<open>getToken\<close>, the call
  throws and the manager is unchanged. A block of \<^verbatim>\<open>Login\<close> whose login fails leaves
  every file as it was, and after the whole \<^verbatim>\<open>Login\<close> the token file of a version
  whose login fails is the one from before the call.
\<close>

theorem C2_failure_keeps_cache:
  "(login_fails (axios_default (Reply r)) \<longleftrightarrow>
      \<not> validateStatus (status r) \<or> \<not> truthy_string (map_of (headers r) ''ubi-sessionid''))
   \<and> (shouldReauthenticate this now \<and> login_fails (axios appId) \<longrightarrow>
        (\<exists>e. getToken axios now now' appId this sent = (Inl e, this, sent @ [appId])))
   \<and> (login_fails (axiosf app) \<longrightarrow>
        files (snd (Login_block (RequestLogin_defaulting axiosf t) nowf version app w)) = files w
        \<and> files (snd (Login_block (RequestLogin_cached axiosf) nowf version app w)) = files w)
   \<and> (login_fails (axiosf UbiAppId_v2) \<longrightarrow>
        files (snd (Login_defaulting axiosf clock w)) TOKEN_PATH_V2 = files w TOKEN_PATH_V2
        \<and> files (snd (Login_cached axiosf clock w)) TOKEN_PATH_V2 = files w TOKEN_PATH_V2)
   \<and> (login_fails (axiosf UbiAppId_v3) \<longrightarrow>
        files (snd (Login_defaulting axiosf clock w)) TOKEN_PATH_V3 = files w TOKEN_PATH_V3
        \<and> files (snd (Login_cached axiosf clock w)) TOKEN_PATH_V3 = files w TOKEN_PATH_V3)"
proof (intro conjI impI)
  show "login_fails (axios_default (Reply r)) \<longleftrightarrow>
      \<not> validateStatus (status r) \<or> \<not> truthy_string (map_of (headers r) ''ubi-sessionid'')"
    by (rule login_fails_reply)
next
  assume "shouldReauthenticate this now \<and> login_fails (axios appId)"
  then show "\<exists>e. getToken axios now now' appId this sent = (Inl e, this, sent @ [appId])"
    using getToken_failed [where axios = axios and appId = appId and this = this and now = now
        and now' = now' and sent = sent] by blast
next
  assume f: "login_fails (axiosf app)"
  show "files (snd (Login_block (RequestLogin_defaulting axiosf t) nowf version app w)) = files w"
    by (rule Login_block_defaulting_failing [where axios = axiosf and appId = app, OF f])
  show "files (snd (Login_block (RequestLogin_cached axiosf) nowf version app w)) = files w"
    by (rule Login_block_cached_failing [where axios = axiosf and appId = app, OF f])
next
  assume f: "login_fails (axiosf UbiAppId_v2)"
  show "files (snd (Login_defaulting axiosf clock w)) TOKEN_PATH_V2 = files w TOKEN_PATH_V2"
    by (rule Login_defaulting_failing_v2 [where axios = axiosf, OF f])
  show "files (snd (Login_cached axiosf clock w)) TOKEN_PATH_V2 = files w TOKEN_PATH_V2"
    by (rule Login_cached_failing_v2 [where axios = axiosf, OF f])
next
  assume f: "login_fails (axiosf UbiAppId_v3)"
  show "files (snd (Login_defaulting axiosf clock w)) TOKEN_PATH_V3 = files w TOKEN_PATH_V3"
    by (rule Login_defaulting_failing_v3 [where axios = axiosf, OF f])
  show "files (snd (Login_cached axiosf clock w)) TOKEN_PATH_V3 = files w TOKEN_PATH_V3"
    by (rule Login_cached_failing_v3 [where axios = axiosf, OF f])
qed

theorem C2_failure_keeps_cache_witness:
  "shouldReauthenticate new_manager 1000
   \<and> login_fails (answering (Reply (example_reply 429 [])) ''app'')
   \<and> (\<exists>e. getToken (answering (Reply (example_reply 429 []))) 1000 1001 ''app'' new_manager [] =
          (Inl e, new_manager, [] @ [''app'']))
   \<and> login_fails (answering (Reply (example_reply 200 [])) UbiAppId_v3)
   \<and> files (snd (Login_cached (answering (Reply (example_reply 200 []))) (clock_at 1000)
        (world_with TOKEN_PATH_V3 expired_token))) TOKEN_PATH_V3 =
      files (world_with TOKEN_PATH_V3 expired_token) TOKEN_PATH_V3"
proof -
  note c = C2_failure_keeps_cache [where this = new_manager and now = 1000 and now' = 1001
      and axios = "answering (Reply (example_reply 429 []))" and appId = "''app''" and sent = "[]"
      and axiosf = "answering (Reply (example_reply 200 []))" and clock = "clock_at 1000"
      and w = "world_with TOKEN_PATH_V3 expired_token"]
  have 1: "shouldReauthenticate new_manager 1000" by code_simp
  have 2: "login_fails (answering (Reply (example_reply 429 [])) ''app'')" by code_simp
  have 3: "\<exists>e. getToken (answering (Reply (example_reply 429 []))) 1000 1001 ''app'' new_manager [] =
          (Inl e, new_manager, [] @ [''app''])"
    by (rule c [THEN conjunct2, THEN conjunct1, THEN mp, OF conjI [OF 1 2]])
  have 4: "login_fails (answering (Reply (example_reply 200 [])) UbiAppId_v3)" by code_simp
  have 5: "files (snd (Login_cached (answering (Reply (example_reply 200 []))) (clock_at 1000)
        (world_with TOKEN_PATH_V3 expired_token))) TOKEN_PATH_V3 =
      files (world_with TOKEN_PATH_V3 expired_token) TOKEN_PATH_V3"
    by (rule c [THEN conjunct2, THEN conjunct2, THEN conjunct2, THEN conjunct2, THEN mp, OF 4,
          THEN conjunct2])
  show ?thesis by (intro conjI 1 2 3 4 5)
qed

text \<open>
  Claim C3. A login attempt that receives a non-2xx response (status other than 0, so
  that the \<^verbatim>\<open>catch\<close> block inspects it) throws a value fixed by the status alone: 401,
  409 and 429 each have their own message, and every other status is thrown on with
  the status in it: inside the message in src/http/ubi-auth.ts, as the AxiosError that
  holds the response in the three file-backed revisions.
\<close>

theorem C3_status_mapping:
  assumes ax: "axios appId = axios_default (Reply r)"
    and non2xx: "\<not> validateStatus (status r)"
    and st: "status r \<noteq> 0"
  shows "fst (requestLogin axios appId sent) =
           Inl (if status r = 401 then Error ''Unauthorized: Incorrect email or password.''
                else if status r = 409 then Error ''Conflict: Captcha or other challenge required.''
                else if status r = 429 then Error ''Too many requests: Rate limit exceeded.''
                else Error (''Login failed with status '' @ decimal (status r)))
       \<and> fst (RequestLogin_uncached axios appId sent) =
           Inl (if status r = 401 then Thrown_string ''Account does not exist.''
                else if status r = 409 then Thrown_string ''Captcha needed.''
                else if status r = 429 then Thrown_string ''Too many requests.''
                else AxiosError (Some r))
       \<and> fst (RequestLogin_defaulting axios now appId sent) =
           Inl (if status r = 401 then Thrown_string ''Account does not exist.''
                else if status r = 409 then Thrown_string ''Captcha needed.''
                else if status r = 429 then Thrown_string ''Too many requests. Rate limit hit.''
                else AxiosError (Some r))
       \<and> fst (RequestLogin_cached axios appId sent) =
           Inl (if status r = 401 then Thrown_string ''Account does not exist.''
                else if status r = 409 then Thrown_string ''Captcha needed.''
                else if status r = 429 then
                  Thrown_string ([CHR 0xE2, CHR 0x80, CHR 0x9A, CHR 0xC3, CHR 0xB9, CHR 0xC3, CHR 0xA5]
                                 @ '' Too many requests. Rate limit hit.'')
                else AxiosError (Some r))"
proof -
  from ax non2xx have rej: "axios appId = Rejected (Some r)" by simp
  have a: "fst (requestLogin axios appId sent) = Inl (requestLogin_catch (AxiosError (Some r)))"
    using rej by (simp add: requestLogin_def)
  have b: "fst (RequestLogin_uncached axios appId sent) = Inl (RequestLogin_uncached_catch (AxiosError (Some r)))"
    using rej by (simp add: RequestLogin_uncached_def)
  have c: "fst (RequestLogin_defaulting axios now appId sent) = Inl (RequestLogin_defaulting_catch (AxiosError (Some r)))"
    using rej by (simp add: RequestLogin_defaulting_def)
  have d: "fst (RequestLogin_cached axios appId sent) = Inl (RequestLogin_cached_catch (AxiosError (Some r)))"
    using rej by (simp add: RequestLogin_cached_def)
  show ?thesis using st by (simp add: a b c d)
qed

theorem C3_status_mapping_witness:
  "fst (requestLogin (answering (Reply (example_reply 500 []))) ''app'' []) =
     Inl (Error ''Login failed with status 500'')
   \<and> fst (RequestLogin_uncached (answering (Reply (example_reply 401 []))) UbiAppId_v2 []) =
     Inl (Thrown_string ''Account does not exist.'')
   \<and> fst (RequestLogin_defaulting (answering (Reply (example_reply 409 []))) 0 UbiAppId_v2 []) =
     Inl (Thrown_string ''Captcha needed.'')
   \<and> fst (RequestLogin_cached (answering (Reply (example_reply 500 []))) UbiAppId_v3 []) =
     Inl (AxiosError (Some (example_reply 500 [])))"
proof -
  have s500: "decimal 500 = ''500''" by code_simp
  have h500: "\<not> validateStatus (status (example_reply 500 []))" "status (example_reply 500 []) \<noteq> 0"
    by (simp_all add: validateStatus_def example_reply_def)
  have h401: "\<not> validateStatus (status (example_reply 401 []))" "status (example_reply 401 []) \<noteq> 0"
    by (simp_all add: validateStatus_def example_reply_def)
  have h409: "\<not> validateStatus (status (example_reply 409 []))" "status (example_reply 409 []) \<noteq> 0"
    by (simp_all add: validateStatus_def example_reply_def)
  note a = C3_status_mapping [where axios = "answering (Reply (example_reply 500 []))" and appId = "''app''" and r = "example_reply 500 []" and now = 0 and sent = "[]", OF answering_def h500]
  note b = C3_status_mapping [where axios = "answering (Reply (example_reply 401 []))" and appId = UbiAppId_v2 and r = "example_reply 401 []" and now = 0 and sent = "[]", OF answering_def h401]
  note c = C3_status_mapping [where axios = "answering (Reply (example_reply 409 []))" and appId = UbiAppId_v2 and r = "example_reply 409 []" and now = 0 and sent = "[]", OF answering_def h409]
  note d = C3_status_mapping [where axios = "answering (Reply (example_reply 500 []))" and appId = UbiAppId_v3 and r = "example_reply 500 []" and now = 0 and sent = "[]", OF answering_def h500]
  show ?thesis
    using a b c d by (simp add: s500 example_reply_def)
qed

text \<open>
  Claim C4 (as amended). A fulfilled response, that is one with a 2xx status, that lacks
  the \<^verbatim>\<open>ubi-sessionid\<close> header makes every revision throw the missing-header
  Error. A response with any other status never reaches the header check: the request
  is rejected and the \<^verbatim>\<open>catch\<close> block maps the status, so the thrown value is not the
  missing-header Error.
\<close>

theorem C4_missing_header:
  assumes ax: "axios appId = axios_default (Reply r)"
    and missing: "\<not> truthy_string (map_of (headers r) ''ubi-sessionid'')"
  shows "(validateStatus (status r) \<longrightarrow>
            fst (requestLogin axios appId sent) =
              Inl (Error ''Missing Ubi-SessionId header in login response.'')
          \<and> fst (RequestLogin_uncached axios appId sent) =
              Inl (Error ''Missing Ubi-SessionId header in login response.'')
          \<and> fst (RequestLogin_defaulting axios now appId sent) =
              Inl (Error ''Missing Ubi-SessionId header in login response.'')
          \<and> fst (RequestLogin_cached axios appId sent) =
              Inl (Error ''Missing Ubi-SessionId header in login response.''))
       \<and> (\<not> validateStatus (status r) \<longrightarrow>
            fst (requestLogin axios appId sent) = Inl (requestLogin_catch (AxiosError (Some r)))
          \<and> fst (RequestLogin_uncached axios appId sent) =
              Inl (RequestLogin_uncached_catch (AxiosError (Some r)))
          \<and> fst (RequestLogin_defaulting axios now appId sent) =
              Inl (RequestLogin_defaulting_catch (AxiosError (Some r)))
          \<and> fst (RequestLogin_cached axios appId sent) =
              Inl (RequestLogin_cached_catch (AxiosError (Some r)))
          \<and> fst (requestLogin axios appId sent) \<noteq>
              Inl (Error ''Missing Ubi-SessionId header in login response.'')
          \<and> fst (RequestLogin_uncached axios appId sent) \<noteq>
              Inl (Error ''Missing Ubi-SessionId header in login response.'')
          \<and> fst (RequestLogin_defaulting axios now appId sent) \<noteq>
              Inl (Error ''Missing Ubi-SessionId header in login response.'')
          \<and> fst (RequestLogin_cached axios appId sent) \<noteq>
              Inl (Error ''Missing Ubi-SessionId header in login response.''))"
proof (cases "validateStatus (status r)")
  case True
  with ax have "axios appId = Fulfilled r" by simp
  from requestLogin_fulfilled_no_header [where axios = axios and appId = appId, OF this missing] True show ?thesis by simp
next
  case False
  with ax have rej: "axios appId = Rejected (Some r)" by simp
  have "fst (requestLogin axios appId sent) = Inl (requestLogin_catch (AxiosError (Some r)))"
    "fst (RequestLogin_uncached axios appId sent) = Inl (RequestLogin_uncached_catch (AxiosError (Some r)))"
    "fst (RequestLogin_defaulting axios now appId sent) = Inl (RequestLogin_defaulting_catch (AxiosError (Some r)))"
    "fst (RequestLogin_cached axios appId sent) = Inl (RequestLogin_cached_catch (AxiosError (Some r)))"
    using rej by (simp_all add: requestLogin_def RequestLogin_uncached_def
        RequestLogin_defaulting_def RequestLogin_cached_def)
  with False show ?thesis
    by (simp only: catch_not_missing_header sum.inject simp_thms)
qed

theorem C4_missing_header_witness:
  "fst (requestLogin (answering (Reply (example_reply 200 []))) ''app'' []) =
     Inl (Error ''Missing Ubi-SessionId header in login response.'')
   \<and> fst (RequestLogin_defaulting (answering (Reply (example_reply 204 [(''ubi-sessionid'', [])])))
          0 UbiAppId_v2 []) =
     Inl (Error ''Missing Ubi-SessionId header in login response.'')
   \<and> fst (RequestLogin_cached (answering (Reply (example_reply 429 []))) UbiAppId_v3 []) =
     Inl (Thrown_string ([CHR 0xE2, CHR 0x80, CHR 0x9A, CHR 0xC3, CHR 0xB9, CHR 0xC3, CHR 0xA5]
                         @ '' Too many requests. Rate limit hit.''))"
proof -
  have m: "\<not> truthy_string (map_of (headers (example_reply 200 [])) ''ubi-sessionid'')"
    "\<not> truthy_string (map_of (headers (example_reply 204 [(''ubi-sessionid'', [])])) ''ubi-sessionid'')"
    "\<not> truthy_string (map_of (headers (example_reply 429 [])) ''ubi-sessionid'')"
    by (simp_all add: example_reply_def)
  have ax: "\<And>x (a::string). answering x a = axios_default x" "\<And>x (a::UbiAppId). answering x a = axios_default x"
    by (simp_all add: answering_def)
  note a = C4_missing_header [where axios = "answering (Reply (example_reply 200 []))" and appId = "''app''"
      and r = "example_reply 200 []" and now = 0 and sent = "[]", OF ax(1) m(1)]
  note b = C4_missing_header [where axios = "answering (Reply (example_reply 204 [(''ubi-sessionid'', [])]))"
      and appId = UbiAppId_v2
      and r = "example_reply 204 [(''ubi-sessionid'', [])]" and now = 0 and sent = "[]", OF ax(2) m(2)]
  note c = C4_missing_header [where axios = "answering (Reply (example_reply 429 []))" and appId = UbiAppId_v3
      and r = "example_reply 429 []" and now = 0 and sent = "[]", OF ax(2) m(3)]
  have v: "validateStatus (status (example_reply 200 []))"
    "validateStatus (status (example_reply 204 [(''ubi-sessionid'', [])]))"
    "\<not> validateStatus (status (example_reply 429 []))"
    by (simp_all add: validateStatus_def example_reply_def)
  from a v(1) have a': "fst (requestLogin (answering (Reply (example_reply 200 []))) ''app'' []) =
     Inl (Error ''Missing Ubi-SessionId header in login response.'')" by blast
  from b v(2) have b': "fst (RequestLogin_defaulting (answering (Reply (example_reply 204 [(''ubi-sessionid'', [])])))
          0 UbiAppId_v2 []) = Inl (Error ''Missing Ubi-SessionId header in login response.'')" by blast
  from c v(3) have c': "fst (RequestLogin_cached (answering (Reply (example_reply 429 []))) UbiAppId_v3 []) =
     Inl (RequestLogin_cached_catch (AxiosError (Some (example_reply 429 []))))" by blast
  show ?thesis using a' b' c' by (simp add: example_reply_def)
qed

theorem C4_counterexample:
  "map_of (headers (example_reply 401 [])) ''ubi-sessionid'' = None
   \<and> fst (requestLogin (answering (Reply (example_reply 401 []))) ''app'' []) =
       Inl (Error ''Unauthorized: Incorrect email or password.'')
   \<and> fst (requestLogin (answering (Reply (example_reply 401 []))) ''app'' []) \<noteq>
       Inl (Error ''Missing Ubi-SessionId header in login response.'')
   \<and> fst (RequestLogin_defaulting (answering (Reply (example_reply 401 []))) 0 UbiAppId_v2 []) =
       Inl (Thrown_string ''Account does not exist.'')"
  by (simp add: requestLogin_def RequestLogin_defaulting_def answering_def example_reply_def
      validateStatus_def)

text \<open>
  Claim C6 (as amended). A login throws exactly when it fails. A login that throws
  inside \<^verbatim>\<open>getToken\<close> reaches the caller as the very value \<^verbatim>\<open>requestLogin\<close> threw,
  after that single request. \<^verbatim>\<open>Login\<close>, in all three file-backed revisions, always
  returns normally. When the login for v2 throws, \<^verbatim>\<open>Login\<close> prints exactly the thrown
  value with \<^verbatim>\<open>console.error\<close>, has sent that one request, and sends none for v3. When
  the v2 block completes and the login for v3 throws, \<^verbatim>\<open>Login\<close> prints exactly the
  thrown value after that one request for v3.
\<close>

theorem C6_failure_propagation:
  "(shouldReauthenticate this now \<and> fst (requestLogin axios appId sent) = Inl e \<longrightarrow>
      getToken axios now now' appId this sent = (Inl e, this, sent @ [appId]))
   \<and> (login_fails (axios appId) \<longleftrightarrow> (\<exists>x. fst (requestLogin axios appId sent) = Inl x))
   \<and> (login_fails (axiosf app) \<longleftrightarrow> (\<exists>x. fst (RequestLogin_uncached axiosf app log) = Inl x))
   \<and> (login_fails (axiosf app) \<longleftrightarrow> (\<exists>x. fst (RequestLogin_defaulting axiosf t app log) = Inl x))
   \<and> (login_fails (axiosf app) \<longleftrightarrow> (\<exists>x. fst (RequestLogin_cached axiosf app log) = Inl x))
   \<and> fst (Login_uncached SaveJSONToFile axiosf w) = Inr ()
   \<and> fst (Login_defaulting axiosf clock w) = Inr ()
   \<and> fst (Login_cached axiosf clock w) = Inr ()
   \<and> (fst (RequestLogin_uncached axiosf UbiAppId_v2 (requests w)) = Inl e \<longrightarrow>
        Login_uncached SaveJSONToFile axiosf w =
          (Inr (), w\<lparr>requests := requests w @ [UbiAppId_v2], console := console w @ [e]\<rparr>))
   \<and> (loadToken (files w) (load_v2 clock) V2 = None
        \<and> fst (RequestLogin_defaulting axiosf (login_v2 clock) UbiAppId_v2 (requests w)) = Inl e \<longrightarrow>
        Login_defaulting axiosf clock w =
          (Inr (), w\<lparr>requests := requests w @ [UbiAppId_v2], console := console w @ [e]\<rparr>))
   \<and> (loadToken (files w) (load_v2 clock) V2 = None
        \<and> fst (RequestLogin_cached axiosf UbiAppId_v2 (requests w)) = Inl e \<longrightarrow>
        Login_cached axiosf clock w =
          (Inr (), w\<lparr>requests := requests w @ [UbiAppId_v2], console := console w @ [e]\<rparr>))
   \<and> (fst (Login_uncached_block SaveJSONToFile axiosf ''private/auth_token_v2.json''
               UbiAppId_v2 w) = Inr u
        \<and> fst (RequestLogin_uncached axiosf UbiAppId_v3
              (requests (snd (Login_uncached_block SaveJSONToFile axiosf
                                ''private/auth_token_v2.json'' UbiAppId_v2 w)))) = Inl e \<longrightarrow>
        Login_uncached SaveJSONToFile axiosf w =
          (Inr (),
           (snd (Login_uncached_block SaveJSONToFile axiosf ''private/auth_token_v2.json''
                   UbiAppId_v2 w))
           \<lparr>requests :=
              requests (snd (Login_uncached_block SaveJSONToFile axiosf
                               ''private/auth_token_v2.json'' UbiAppId_v2 w)) @ [UbiAppId_v3],
            console :=
              console (snd (Login_uncached_block SaveJSONToFile axiosf
                              ''private/auth_token_v2.json'' UbiAppId_v2 w)) @ [e]\<rparr>))
   \<and> (fst (Login_block (RequestLogin_defaulting axiosf (login_v2 clock)) (load_v2 clock)
               V2 UbiAppId_v2 w) = Inr u
        \<and> loadToken (files w) (load_v3 clock) V3 = None
        \<and> fst (RequestLogin_defaulting axiosf (login_v3 clock) UbiAppId_v3
              (requests (snd (Login_block (RequestLogin_defaulting axiosf (login_v2 clock))
                                (load_v2 clock) V2 UbiAppId_v2 w)))) = Inl e \<longrightarrow>
        Login_defaulting axiosf clock w =
          (Inr (),
           (snd (Login_block (RequestLogin_defaulting axiosf (login_v2 clock)) (load_v2 clock)
                   V2 UbiAppId_v2 w))
           \<lparr>requests :=
              requests (snd (Login_block (RequestLogin_defaulting axiosf (login_v2 clock))
                               (load_v2 clock) V2 UbiAppId_v2 w)) @ [UbiAppId_v3],
            console :=
              console (snd (Login_block (RequestLogin_defaulting axiosf (login_v2 clock))
                              (load_v2 clock) V2 UbiAppId_v2 w)) @ [e]\<rparr>))
   \<and> (fst (Login_block (RequestLogin_cached axiosf) (load_v2 clock) V2 UbiAppId_v2 w) = Inr u
        \<and> loadToken (files w) (load_v3 clock) V3 = None
        \<and> fst (RequestLogin_cached axiosf UbiAppId_v3
              (requests (snd (Login_block (RequestLogin_cached axiosf) (load_v2 clock)
                                V2 UbiAppId_v2 w)))) = Inl e \<longrightarrow>
        Login_cached axiosf clock w =
          (Inr (),
           (snd (Login_block (RequestLogin_cached axiosf) (load_v2 clock) V2 UbiAppId_v2 w))
           \<lparr>requests :=
              requests (snd (Login_block (RequestLogin_cached axiosf) (load_v2 clock)
                               V2 UbiAppId_v2 w)) @ [UbiAppId_v3],
            console :=
              console (snd (Login_block (RequestLogin_cached axiosf) (load_v2 clock)
                              V2 UbiAppId_v2 w)) @ [e]\<rparr>))"
proof (intro conjI)
  show "login_fails (axios appId) \<longleftrightarrow> (\<exists>x. fst (requestLogin axios appId sent) = Inl x)"
    by (rule requestLogin_fails_iff [symmetric])
  show "login_fails (axiosf app) \<longleftrightarrow> (\<exists>x. fst (RequestLogin_uncached axiosf app log) = Inl x)"
    by (rule RequestLogin_uncached_fails_iff [symmetric])
  show "login_fails (axiosf app) \<longleftrightarrow> (\<exists>x. fst (RequestLogin_defaulting axiosf t app log) = Inl x)"
    by (rule RequestLogin_defaulting_fails_iff [symmetric])
  show "login_fails (axiosf app) \<longleftrightarrow> (\<exists>x. fst (RequestLogin_cached axiosf app log) = Inl x)"
    by (rule RequestLogin_cached_fails_iff [symmetric])
  show "fst (Login_uncached SaveJSONToFile axiosf w) = Inr ()"
    by (rule Login_uncached_returns)
  show "fst (Login_defaulting axiosf clock w) = Inr ()"
    by (rule Login_defaulting_returns)
  show "fst (Login_cached axiosf clock w) = Inr ()"
    by (rule Login_cached_returns)
qed (intro impI, (elim conjE)?,
     (rule getToken_thrown_value Login_uncached_v2_thrown Login_defaulting_v2_thrown
        Login_cached_v2_thrown Login_uncached_v3_thrown Login_defaulting_v3_thrown
        Login_cached_v3_thrown; assumption))+

theorem C6_failure_propagation_witness:
  "shouldReauthenticate new_manager 1000
   \<and> fst (requestLogin (answering (Reply (example_reply 401 []))) ''app'' []) =
       Inl (Error ''Unauthorized: Incorrect email or password.'')
   \<and> getToken (answering (Reply (example_reply 401 []))) 1000 1001 ''app'' new_manager [] =
       (Inl (Error ''Unauthorized: Incorrect email or password.''), new_manager, [] @ [''app''])
   \<and> fst (RequestLogin_uncached (answering (Reply (example_reply 401 []))) UbiAppId_v2
          (requests empty_world)) = Inl (Thrown_string ''Account does not exist.'')
   \<and> Login_uncached write_through (answering (Reply (example_reply 401 []))) empty_world =
       (Inr (), empty_world\<lparr>requests := requests empty_world @ [UbiAppId_v2],
                            console := console empty_world @
                              [Thrown_string ''Account does not exist.'']\<rparr>)
   \<and> fst (Login_block (RequestLogin_cached v3_refusing_service) (load_v2 (clock_at 1000))
          V2 UbiAppId_v2 empty_world) = Inr ()
   \<and> loadToken (files empty_world) (load_v3 (clock_at 1000)) V3 = None
   \<and> fst (RequestLogin_cached v3_refusing_service UbiAppId_v3
          (requests (snd (Login_block (RequestLogin_cached v3_refusing_service)
                            (load_v2 (clock_at 1000)) V2 UbiAppId_v2 empty_world)))) =
       Inl (Thrown_string ''Captcha needed.'')
   \<and> Login_cached v3_refusing_service (clock_at 1000) empty_world =
       (Inr (),
        (snd (Login_block (RequestLogin_cached v3_refusing_service) (load_v2 (clock_at 1000))
                V2 UbiAppId_v2 empty_world))
        \<lparr>requests :=
           requests (snd (Login_block (RequestLogin_cached v3_refusing_service)
                            (load_v2 (clock_at 1000)) V2 UbiAppId_v2 empty_world)) @ [UbiAppId_v3],
         console :=
           console (snd (Login_block (RequestLogin_cached v3_refusing_service)
                           (load_v2 (clock_at 1000)) V2 UbiAppId_v2 empty_world)) @
             [Thrown_string ''Captcha needed.'']\<rparr>)
   \<and> requests (snd (Login_cached v3_refusing_service (clock_at 1000) empty_world)) =
       [UbiAppId_v2, UbiAppId_v3]
   \<and> console (snd (Login_cached v3_refusing_service (clock_at 1000) empty_world)) =
       [Thrown_string ''Captcha needed.'']"
proof -
  note a = C6_failure_propagation [where this = new_manager and now = 1000 and now' = 1001
      and axios = "answering (Reply (example_reply 401 []))" and appId = "''app''" and sent = "[]"
      and e = "Error ''Unauthorized: Incorrect email or password.''"]
  note b = C6_failure_propagation [where axiosf = "answering (Reply (example_reply 401 []))"
      and w = empty_world and SaveJSONToFile = write_through
      and e = "Thrown_string ''Account does not exist.''"]
  note c = C6_failure_propagation [where axiosf = v3_refusing_service and clock = "clock_at 1000"
      and w = empty_world and u = "()" and e = "Thrown_string ''Captcha needed.''"]
  have 1: "shouldReauthenticate new_manager 1000" by code_simp
  have 2: "fst (requestLogin (answering (Reply (example_reply 401 []))) ''app'' []) =
       Inl (Error ''Unauthorized: Incorrect email or password.'')" by code_simp
  have 3: "getToken (answering (Reply (example_reply 401 []))) 1000 1001 ''app'' new_manager [] =
       (Inl (Error ''Unauthorized: Incorrect email or password.''), new_manager, [] @ [''app''])"
    by (rule a [THEN conjunct1, THEN mp, OF conjI [OF 1 2]])
  have 4: "fst (RequestLogin_uncached (answering (Reply (example_reply 401 []))) UbiAppId_v2
          (requests empty_world)) = Inl (Thrown_string ''Account does not exist.'')" by code_simp
  have 5: "Login_uncached write_through (answering (Reply (example_reply 401 []))) empty_world =
       (Inr (), empty_world\<lparr>requests := requests empty_world @ [UbiAppId_v2],
                            console := console empty_world @
                              [Thrown_string ''Account does not exist.'']\<rparr>)"
    by (rule b [THEN conjunct2, THEN conjunct2, THEN conjunct2, THEN conjunct2, THEN conjunct2,
          THEN conjunct2, THEN conjunct2, THEN conjunct2, THEN conjunct1, THEN mp, OF 4])
  have 6: "fst (Login_block (RequestLogin_cached v3_refusing_service) (load_v2 (clock_at 1000))
          V2 UbiAppId_v2 empty_world) = Inr ()" by code_simp
  have 7: "loadToken (files empty_world) (load_v3 (clock_at 1000)) V3 = None" by code_simp
  have 8: "fst (RequestLogin_cached v3_refusing_service UbiAppId_v3
          (requests (snd (Login_block (RequestLogin_cached v3_refusing_service)
                            (load_v2 (clock_at 1000)) V2 UbiAppId_v2 empty_world)))) =
       Inl (Thrown_string ''Captcha needed.'')" by code_simp
  have 9: "Login_cached v3_refusing_service (clock_at 1000) empty_world =
       (Inr (),
        (snd (Login_block (RequestLogin_cached v3_refusing_service) (load_v2 (clock_at 1000))
                V2 UbiAppId_v2 empty_world))
        \<lparr>requests :=
           requests (snd (Login_block (RequestLogin_cached v3_refusing_service)
                            (load_v2 (clock_at 1000)) V2 UbiAppId_v2 empty_world)) @ [UbiAppId_v3],
         console :=
           console (snd (Login_block (RequestLogin_cached v3_refusing_service)
                           (load_v2 (clock_at 1000)) V2 UbiAppId_v2 empty_world)) @
             [Thrown_string ''Captcha needed.'']\<rparr>)"
    by (rule c [THEN conjunct2, THEN conjunct2, THEN conjunct2, THEN conjunct2, THEN conjunct2,
          THEN conjunct2, THEN conjunct2, THEN conjunct2, THEN conjunct2, THEN conjunct2,
          THEN conjunct2, THEN conjunct2, THEN conjunct2, THEN mp,
          OF conjI [OF 6 conjI [OF 7 8]]])
  have 10: "requests (snd (Login_cached v3_refusing_service (clock_at 1000) empty_world)) =
       [UbiAppId_v2, UbiAppId_v3]" by code_simp
  have 11: "console (snd (Login_cached v3_refusing_service (clock_at 1000) empty_world)) =
       [Thrown_string ''Captcha needed.'']" by code_simp
  show ?thesis by (intro conjI 1 2 3 4 5 6 7 8 9 10 11)
qed

text \<open>
  A 401 for the v2 login: \<^verbatim>\<open>Login\<close> returns normally in each revision, the error is
  only printed, and v3 is never requested.
\<close>

theorem C6_counterexample:
  "login_fails (answering (Reply (example_reply 401 [])) UbiAppId_v2)
   \<and> fst (Login_cached (answering (Reply (example_reply 401 []))) (clock_at 1000) empty_world) = Inr ()
   \<and> console (snd (Login_cached (answering (Reply (example_reply 401 []))) (clock_at 1000) empty_world)) =
       [Thrown_string ''Account does not exist.'']
   \<and> requests (snd (Login_cached (answering (Reply (example_reply 401 []))) (clock_at 1000) empty_world)) =
       [UbiAppId_v2]
   \<and> fst (Login_defaulting (answering (Reply (example_reply 401 []))) (clock_at 1000) empty_world) = Inr ()
   \<and> fst (Login_uncached write_through (answering (Reply (example_reply 401 []))) empty_world) = Inr ()"
  by code_simp

section \<open>What the token files hold\<close>

text \<open>
  Claim C7 (as amended). Where the file can be written, \<^verbatim>\<open>saveToken\<close> succeeds and the
  file holds the token. \<^verbatim>\<open>loadToken\<close> then returns that same token exactly when its
  expiration is a date more than 5 minutes after the time of loading, and null
  otherwise.
\<close>

theorem C7_round_trip:
  assumes "\<not> write_fails w (token_path version)"
  shows "fst (saveToken version token w) = Inr ()
       \<and> files (snd (saveToken version token w)) (token_path version) = Some (JSON_text token)
       \<and> loadToken (files (snd (saveToken version token w))) now version =
           (if \<exists>e. expiration token = Some (ISO e) \<and> now + 5 * 60 * 1000 < e
            then Some token else None)"
  using assms
  by (auto simp add: saveToken_eq loadToken_eq split: option.splits date_string.splits)

theorem C7_round_trip_witness:
  "loadToken (files (snd (saveToken V2 fresh_token empty_world))) 1000000 V2 = Some fresh_token
   \<and> loadToken (files (snd (saveToken V3 expired_token empty_world))) 1000000 V3 = None"
proof -
  have w: "\<not> write_fails empty_world (token_path V2)" "\<not> write_fails empty_world (token_path V3)"
    by (simp_all add: empty_world_def)
  have a: "\<exists>e. expiration fresh_token = Some (ISO e) \<and> 1000000 + 5 * 60 * 1000 < e"
    by (simp add: fresh_token_def)
  have b: "\<not> (\<exists>e. expiration expired_token = Some (ISO e) \<and> 1000000 + 5 * 60 * 1000 < e)"
    by (simp add: expired_token_def)
  from C7_round_trip [OF w(1), of fresh_token 1000000] a
  have 1: "loadToken (files (snd (saveToken V2 fresh_token empty_world))) 1000000 V2 = Some fresh_token"
    by simp
  from C7_round_trip [OF w(2), of expired_token 1000000] b
  have 2: "loadToken (files (snd (saveToken V3 expired_token empty_world))) 1000000 V3 = None"
    by simp
  show ?thesis by (intro conjI 1 2)
qed

text \<open>
  A token without expiration, and one whose expiration has passed, are saved and then
  not loaded back.
\<close>

theorem C7_counterexample:
  "fst (saveToken V2 example_data empty_world) = Inr ()
   \<and> loadToken (files (snd (saveToken V2 example_data empty_world))) 0 V2 = None
   \<and> fst (saveToken V2 expired_token empty_world) = Inr ()
   \<and> loadToken (files (snd (saveToken V2 expired_token empty_world))) 1000000 V2 = None"
  by code_simp

text \<open>
  Claim C10. A successful \<^verbatim>\<open>RequestLogin\<close> of the expiration-defaulting revision
  returns a token whose expiration is set: the one in the response body when that is
  truthy, otherwise the instant 30 minutes after the clock reading. Every file that
  \<^verbatim>\<open>Login\<close> of that revision changes then holds a token with an expiration.
\<close>

theorem C10_expiration_always_set:
  "(fst (RequestLogin_defaulting axios now appId sent) = Inr res \<longrightarrow>
      (\<exists>response token. axios appId = Fulfilled response \<and> res = Some token
           \<and> truthy_date (expiration token)
           \<and> expiration token =
               (if truthy_date (expiration (data response)) then expiration (data response)
                else Some (toISOString (now + 30 * 60 * 1000)))))
   \<and> (files (snd (Login_defaulting axios' clock w)) p \<noteq> files w p \<longrightarrow>
        (\<exists>token. files (snd (Login_defaulting axios' clock w)) p = Some (JSON_text token)
           \<and> truthy_date (expiration token)))"
proof -
  have "fst (RequestLogin_defaulting axios now appId sent) = Inr res \<Longrightarrow>
      \<exists>response token. axios appId = Fulfilled response \<and> res = Some token
           \<and> truthy_date (expiration token)
           \<and> expiration token =
               (if truthy_date (expiration (data response)) then expiration (data response)
                else Some (toISOString (now + 30 * 60 * 1000)))"
    by (auto simp add: RequestLogin_defaulting_def Let_def toISOString_def
        split: axios_result.splits if_splits)
  then show ?thesis using Login_defaulting_changed by blast
qed

theorem C10_expiration_always_set_witness:
  "fst (RequestLogin_defaulting (answering (Reply ok_reply)) 1000 UbiAppId_v2 []) =
     Inr (Some (example_data\<lparr>expiration := Some (ISO 1801000), sessionId := Some ''session-1''\<rparr>))
   \<and> files (snd (Login_defaulting (answering (Reply ok_reply)) (clock_at 1000) empty_world))
        TOKEN_PATH_V3 \<noteq> files empty_world TOKEN_PATH_V3
   \<and> (\<exists>token.
         files (snd (Login_defaulting (answering (Reply ok_reply)) (clock_at 1000) empty_world))
           TOKEN_PATH_V3 = Some (JSON_text token) \<and> truthy_date (expiration token))"
proof -
  have h1: "fst (RequestLogin_defaulting (answering (Reply ok_reply)) 1000 UbiAppId_v2 []) =
     Inr (Some (example_data\<lparr>expiration := Some (ISO 1801000), sessionId := Some ''session-1''\<rparr>))"
    by code_simp
  have h2: "files (snd (Login_defaulting (answering (Reply ok_reply)) (clock_at 1000) empty_world))
        TOKEN_PATH_V3 \<noteq> files empty_world TOKEN_PATH_V3"
    by code_simp
  have h3: "\<exists>token.
         files (snd (Login_defaulting (answering (Reply ok_reply)) (clock_at 1000) empty_world))
           TOKEN_PATH_V3 = Some (JSON_text token) \<and> truthy_date (expiration token)"
    by (rule C10_expiration_always_set [where axios' = "answering (Reply ok_reply)"
          and clock = "clock_at 1000" and w = empty_world and p = TOKEN_PATH_V3,
          THEN conjunct2, THEN mp, OF h2])
  show ?thesis by (intro conjI h1 h2 h3)
qed

section \<open>One credential in memory\<close>

text \<open>
  Claim C9. The claim asks that the pair \<^verbatim>\<open>getToken\<close> returns for a variant was
  obtained by a login made with that variant's application identifier. The code does
  not keep this. The manager has a single slot: once a call has returned a pair, a later
  call that finds the stored credential still valid returns that same pair and sends no
  request, whatever application identifier it is given.
\<close>

theorem C9_pair_of_earlier_identifier:
  assumes first: "getToken axios now now' appId this sent = (Inr pair, this', sent')"
    and valid: "\<not> shouldReauthenticate this' later"
  shows "getToken axios' later later' appId' this' sent' = (Inr pair, this', sent')"
proof -
  have "pair = (this_token this', this_sessionId this')"
    by (rule getToken_returns_stored [OF first])
  with valid show ?thesis by (simp add: getToken_cached)
qed

text \<open>
  A call for one application identifier followed, a second later, by a call for another:
  the second returns the ticket issued to the first and sends no request of its own,
  although a login with its own identifier yields a different ticket.
\<close>

theorem C9_failing_input:
  "getToken example_service 1000 1001 ''app-v2'' new_manager [] =
     (Inr (Some ''ticket-of-app-v2'', Some ''session-of-app-v2''),
      \<lparr>this_token = Some ''ticket-of-app-v2'', this_sessionId = Some ''session-of-app-v2'',
        this_lastLoginTime = Some 1001\<rparr>,
      [''app-v2''])
   \<and> \<not> shouldReauthenticate
        \<lparr>this_token = Some ''ticket-of-app-v2'', this_sessionId = Some ''session-of-app-v2'',
          this_lastLoginTime = Some 1001\<rparr> 2000
   \<and> getToken example_service 2000 2001 ''app-v3''
        \<lparr>this_token = Some ''ticket-of-app-v2'', this_sessionId = Some ''session-of-app-v2'',
          this_lastLoginTime = Some 1001\<rparr> [''app-v2''] =
     (Inr (Some ''ticket-of-app-v2'', Some ''session-of-app-v2''),
      \<lparr>this_token = Some ''ticket-of-app-v2'', this_sessionId = Some ''session-of-app-v2'',
        this_lastLoginTime = Some 1001\<rparr>,
      [''app-v2''])
   \<and> fst (requestLogin example_service ''app-v3'' [''app-v2'']) =
     Inr (Some (example_data\<lparr>ticket := ''ticket-of-app-v3'',
                              sessionId := Some ''session-of-app-v3''\<rparr>))"
proof -
  have 1: "getToken example_service 1000 1001 ''app-v2'' new_manager [] =
     (Inr (Some ''ticket-of-app-v2'', Some ''session-of-app-v2''),
      \<lparr>this_token = Some ''ticket-of-app-v2'', this_sessionId = Some ''session-of-app-v2'',
        this_lastLoginTime = Some 1001\<rparr>,
      [''app-v2''])"
    by code_simp
  have 2: "\<not> shouldReauthenticate
        \<lparr>this_token = Some ''ticket-of-app-v2'', this_sessionId = Some ''session-of-app-v2'',
          this_lastLoginTime = Some 1001\<rparr> 2000"
    by code_simp
  have 3: "getToken example_service 2000 2001 ''app-v3''
        \<lparr>this_token = Some ''ticket-of-app-v2'', this_sessionId = Some ''session-of-app-v2'',
          this_lastLoginTime = Some 1001\<rparr> [''app-v2''] =
     (Inr (Some ''ticket-of-app-v2'', Some ''session-of-app-v2''),
      \<lparr>this_token = Some ''ticket-of-app-v2'', this_sessionId = Some ''session-of-app-v2'',
        this_lastLoginTime = Some 1001\<rparr>,
      [''app-v2''])"
    by (rule C9_pair_of_earlier_identifier [where axios = example_service
          and appId = "''app-v2''" and this = new_manager and sent = "[]", OF 1 2])
  have 4: "fst (requestLogin example_service ''app-v3'' [''app-v2'']) =
     Inr (Some (example_data\<lparr>ticket := ''ticket-of-app-v3'',
                              sessionId := Some ''session-of-app-v3''\<rparr>))"
    by code_simp
  show ?thesis by (intro conjI 1 2 3 4)
qed

end
